theory Spec2Isabelle
  imports Complex_Main "HOL-Library.Sublist" "HOL-Library.FSet" "HOL-Library.AList"
begin

section \<open>Python values and string operations used by the sources\<close>

text \<open>
  Python strings are modelled as \<^typ>\<open>string\<close> (code points below 256). Numbers coming
  out of the vision model's JSON are pixel quantities; they are modelled as rationals, which
  is exact for Python integers and idealises floats as the rationals they denote.
\<close>

datatype exn =
    ValueError | JSONDecodeError | IndexError | KeyError | TypeError
  | ZeroDivisionError | OtherError

text \<open>\<open>json.JSONDecodeError\<close> is a subclass of \<open>ValueError\<close>.\<close>

definition is_ValueError :: "exn \<Rightarrow> bool" where
  "is_ValueError e = (e = ValueError \<or> e = JSONDecodeError)"

datatype json =
    JNull | JBool bool | JNum rat | JStr string
  | JArr "json list" | JObj "(string \<times> json) list"

text \<open>\<open>str.strip()\<close>: the characters Python counts as whitespace.\<close>

definition is_space :: "char \<Rightarrow> bool" where
  "is_space c = (let n = (of_char c :: nat) in
     (9 \<le> n \<and> n \<le> 13) \<or> (28 \<le> n \<and> n \<le> 32) \<or> n = 133 \<or> n = 160)"

definition strip :: "string \<Rightarrow> string" where
  "strip s = rev (dropWhile is_space (rev (dropWhile is_space s)))"

text \<open>\<open>s.find(sub)\<close> and \<open>s.rfind(sub)\<close> as the first and the last index at which
  \<open>sub\<close> starts; \<open>None\<close> stands for Python's \<open>-1\<close>.\<close>

fun find_sub :: "string \<Rightarrow> string \<Rightarrow> nat option" where
  "find_sub sub [] = (if sub = [] then Some 0 else None)"
| "find_sub sub (c # cs) =
     (if prefix sub (c # cs) then Some 0 else map_option Suc (find_sub sub cs))"

fun rfind_sub :: "string \<Rightarrow> string \<Rightarrow> nat option" where
  "rfind_sub sub [] = (if sub = [] then Some 0 else None)"
| "rfind_sub sub (c # cs) =
     (case rfind_sub sub cs of
        Some i \<Rightarrow> Some (Suc i)
      | None \<Rightarrow> if prefix sub (c # cs) then Some 0 else None)"

definition py_find :: "string \<Rightarrow> string \<Rightarrow> int \<Rightarrow> int" where
  "py_find s sub start =
     (let st = (if start < 0 then nat (max 0 (int (length s) + start)) else nat start)
      in if length s < st then - 1
         else case find_sub sub (drop st s) of
                None \<Rightarrow> - 1
              | Some i \<Rightarrow> int (st + i))"

definition py_rfind :: "string \<Rightarrow> string \<Rightarrow> int" where
  "py_rfind s sub = (case rfind_sub sub s of None \<Rightarrow> - 1 | Some i \<Rightarrow> int i)"

text \<open>\<open>sub in s\<close> and \<open>s.startswith(sub)\<close>.\<close>

definition contains :: "string \<Rightarrow> string \<Rightarrow> bool" where
  "contains sub s = (find_sub sub s \<noteq> None)"

definition startswith :: "string \<Rightarrow> string \<Rightarrow> bool" where
  "startswith s sub = prefix sub s"

text \<open>\<open>s[start:end]\<close>: a negative index counts from the end, and both are clipped
  to the string.\<close>

definition clamp_index :: "nat \<Rightarrow> int \<Rightarrow> nat" where
  "clamp_index n i = (if i < 0 then nat (max 0 (int n + i)) else min n (nat i))"

definition slice :: "string \<Rightarrow> int \<Rightarrow> int \<Rightarrow> string" where
  "slice s start end =
     (let a = clamp_index (length s) start; b = clamp_index (length s) end
      in take (b - a) (drop a s))"

definition fence :: string where
  "fence = ''```''"

definition fence_json :: string where
  "fence_json = ''```json''"

section \<open>Coordinate resolver\<close>

text \<open>
  \<open>a // 2\<close>, Python's floor division by two.
\<close>

definition floordiv2 :: "rat \<Rightarrow> rat" where
  "floordiv2 a = of_int \<lfloor>a / 2\<rfloor>"

text \<open>
  The click position computed from a bounding box in \<open>_find_job_navigation\<close>,
  \<open>_check_hidden_menus\<close>, \<open>_find_job_links_on_page\<close> (job_page_discovery.py) and in
  \<open>_click_element\<close> (simple_job_discovery.py):
  \<^verbatim>\<open>
  if len(bbox) == 4:
      if bbox[2] > 100 and bbox[3] > 100:  # x1, y1, x2, y2
          click_x = (bbox[0] + bbox[2]) // 2
          click_y = (bbox[1] + bbox[3]) // 2
      else:  # x, y, width, height
          click_x = bbox[0] + bbox[2] // 2
          click_y = bbox[1] + bbox[3] // 2
  else:
      continue
  \<close>
  \<open>None\<close> is the \<open>else\<close> branch: the element is skipped.
\<close>

fun resolve_click_point :: "rat list \<Rightarrow> (rat \<times> rat) option" where
  "resolve_click_point [b0, b1, b2, b3] =
     (if b2 > 100 \<and> b3 > 100
      then Some (floordiv2 (b0 + b2), floordiv2 (b1 + b3))
      else Some (b0 + floordiv2 b2, b1 + floordiv2 b3))"
| "resolve_click_point bbox = None"

section \<open>Page-absolute bounding boxes (extract_bboxes.py)\<close>

text \<open>Sequencing of steps that may raise: the first exception wins.\<close>

definition bindE :: "exn + 'a \<Rightarrow> ('a \<Rightarrow> exn + 'b) \<Rightarrow> exn + 'b" where
  "bindE m f = (case m of Inl e \<Rightarrow> Inl e | Inr v \<Rightarrow> f v)"

text \<open>\<open>v[i]\<close> for a literal index \<open>i \<ge> 0\<close>, \<open>v[k]\<close> and \<open>v[k] = x\<close> for a string key, and
  \<open>v + n\<close> for an integer \<open>n\<close>, on the values \<open>json.loads\<close> produces.\<close>

fun py_index :: "json \<Rightarrow> nat \<Rightarrow> exn + json" where
  "py_index (JArr xs) i = (if i < length xs then Inr (xs ! i) else Inl IndexError)"
| "py_index (JStr s) i = (if i < length s then Inr (JStr [s ! i]) else Inl IndexError)"
| "py_index (JObj kvs) i = Inl KeyError"
| "py_index v i = Inl TypeError"

fun get_item :: "json \<Rightarrow> string \<Rightarrow> exn + json" where
  "get_item (JObj kvs) k = (case map_of kvs k of None \<Rightarrow> Inl KeyError | Some v \<Rightarrow> Inr v)"
| "get_item v k = Inl TypeError"

fun set_item :: "json \<Rightarrow> string \<Rightarrow> json \<Rightarrow> exn + json" where
  "set_item (JObj kvs) k x = Inr (JObj (AList.update k x kvs))"
| "set_item v k x = Inl TypeError"

fun py_add_int :: "json \<Rightarrow> int \<Rightarrow> exn + json" where
  "py_add_int (JNum a) n = Inr (JNum (a + of_int n))"
| "py_add_int (JBool b) n = Inr (JNum ((if b then 1 else 0) + of_int n))"
| "py_add_int v n = Inl TypeError"

text \<open>
  \<^verbatim>\<open>
  element['bbox_absolute'] = [
      element['bbox'][0],
      element['bbox'][1] + scroll_position,
      element['bbox'][2],
      element['bbox'][3] + scroll_position
  ]
  \<close>
\<close>

definition bbox_absolute :: "json \<Rightarrow> int \<Rightarrow> exn + json" where
  "bbox_absolute bbox scroll_position =
     bindE (py_index bbox 0) (\<lambda>b0.
     bindE (py_index bbox 1) (\<lambda>b1.
     bindE (py_add_int b1 scroll_position) (\<lambda>a1.
     bindE (py_index bbox 2) (\<lambda>b2.
     bindE (py_index bbox 3) (\<lambda>b3.
     bindE (py_add_int b3 scroll_position) (\<lambda>a3.
     Inr (JArr [b0, a1, b2, a3])))))))"

text \<open>
  One iteration of the loop of \<open>_extract_viewport_bboxes\<close> over the elements of the
  response: the metadata it stores into the element, and what the verbose report looks up,
  \<^verbatim>\<open>
  if self.verbose and element['category'] in ['JOB_NAVIGATION', 'JOB_LISTING', 'MENU_BUTTON']:
      print(f"  Found: {element['category']} - '{element['label']}' at viewport bbox {element['bbox']}")
  \<close>
  A missing key raises \<open>KeyError\<close>, which makes the function return \<open>[]\<close>.
\<close>

definition reported_categories :: "json list" where
  "reported_categories = [JStr ''JOB_NAVIGATION'', JStr ''JOB_LISTING'', JStr ''MENU_BUTTON'']"

definition add_element_metadata ::
  "bool \<Rightarrow> string \<Rightarrow> int \<Rightarrow> int \<Rightarrow> string \<Rightarrow> json \<Rightarrow> exn + json" where
  "add_element_metadata verbose url viewport_count scroll_position screenshot_path element =
     bindE (set_item element ''url'' (JStr url)) (\<lambda>e1.
     bindE (set_item e1 ''viewport_number'' (JNum (of_int viewport_count))) (\<lambda>e2.
     bindE (set_item e2 ''scroll_position'' (JNum (of_int scroll_position))) (\<lambda>e3.
     bindE (set_item e3 ''screenshot_path'' (JStr screenshot_path)) (\<lambda>e4.
     bindE (get_item e4 ''bbox'') (\<lambda>bbox.
     bindE (set_item e4 ''bbox_viewport'' bbox) (\<lambda>e5.
     bindE (get_item e5 ''bbox'') (\<lambda>bbox'.
     bindE (bbox_absolute bbox' scroll_position) (\<lambda>ab.
     bindE (set_item e5 ''bbox_absolute'' ab) (\<lambda>e6.
     if verbose then
       bindE (get_item e6 ''category'') (\<lambda>category.
         if category \<in> set reported_categories then
           bindE (get_item e6 ''category'') (\<lambda>category'.
           bindE (get_item e6 ''label'') (\<lambda>label.
           bindE (get_item e6 ''bbox'') (\<lambda>bbox''. Inr e6)))
         else Inr e6)
     else Inr e6)))))))))"

section \<open>Post-processing of vision responses\<close>

text \<open>
  The extraction repeated in \<open>_find_job_navigation\<close>, \<open>_check_hidden_menus\<close>,
  \<open>_find_related_job_pages\<close> (job_page_discovery.py), \<open>_find_next_job_element\<close>
  (simple_job_discovery.py) and extract_bboxes.py:
  \<^verbatim>\<open>
  if '```json' in result:
      start = result.find('```json') + 7
      end = result.find('```', start)
      if end > start:
          result = result[start:end].strip()
  elif '```' in result:
      start = result.find('```') + 3
      end = result.find('```', start)
      if end > start:
          result = result[start:end].strip()
  \<close>
\<close>

definition extract_json_find :: "string \<Rightarrow> string" where
  "extract_json_find result =
     (if contains fence_json result then
        (let start = py_find result fence_json 0 + 7;
             end = py_find result fence start
         in if end > start then strip (slice result start end) else result)
      else if contains fence result then
        (let start = py_find result fence 0 + 3;
             end = py_find result fence start
         in if end > start then strip (slice result start end) else result)
      else result)"

text \<open>
  The extraction of \<open>_parse_vision_response\<close> (viewport_analyzer.py) and
  \<open>_find_job_links_on_page\<close> (job_page_discovery.py):
  \<^verbatim>\<open>
  if response.startswith('```json'):
      start = response.find('```json') + 7
      end = response.rfind('```')
      if end > start:
          response = response[start:end].strip()
  elif response.startswith('```'):
      start = response.find('```') + 3
      end = response.rfind('```')
      if end > start:
          response = response[start:end].strip()
  \<close>
\<close>

definition extract_json_startswith :: "string \<Rightarrow> string" where
  "extract_json_startswith response =
     (if startswith response fence_json then
        (let start = py_find response fence_json 0 + 7;
             end = py_rfind response fence
         in if end > start then strip (slice response start end) else response)
      else if startswith response fence then
        (let start = py_find response fence 0 + 3;
             end = py_rfind response fence
         in if end > start then strip (slice response start end) else response)
      else response)"

section \<open>The page and the vision model as an environment\<close>

text \<open>
  The browser page, the vision model, the clock and the file system form the world \<open>'w\<close>.
  An operation on it returns a value or raises, and leaves a new world.
\<close>

type_synonym ('a, 'w) io = "'w \<Rightarrow> (exn + 'a) \<times> 'w"

definition io_ret :: "'a \<Rightarrow> ('a, 'w) io" where
  "io_ret v w = (Inr v, w)"

definition io_raise :: "exn \<Rightarrow> ('a, 'w) io" where
  "io_raise e w = (Inl e, w)"

definition io_lift :: "exn + 'a \<Rightarrow> ('a, 'w) io" where
  "io_lift r w = (r, w)"

definition io_bind :: "('a, 'w) io \<Rightarrow> ('a \<Rightarrow> ('b, 'w) io) \<Rightarrow> ('b, 'w) io" where
  "io_bind m f w = (case m w of (Inl e, w') \<Rightarrow> (Inl e, w') | (Inr v, w') \<Rightarrow> f v w')"

text \<open>\<open>try: m except Exception as e: h e\<close>.\<close>

definition io_catch :: "('a, 'w) io \<Rightarrow> (exn \<Rightarrow> ('a, 'w) io) \<Rightarrow> ('a, 'w) io" where
  "io_catch m h w = (case m w of (Inl e, w') \<Rightarrow> h e w' | (Inr v, w') \<Rightarrow> (Inr v, w'))"

text \<open>The instruction sent with a screenshot.\<close>

datatype prompt =
    AnalysisPrompt "string list" bool
  | JobNavigationPrompt | ExpandableMenusPrompt | ExpandedMenuPrompt
  | VerifyJobPagePrompt | JobLinksPrompt | RelatedPagesPrompt
  | PaginationPrompt int int

record 'w env =
  page_url :: "'w \<Rightarrow> string"
  viewport_size :: "'w \<Rightarrow> (int \<times> int) option"
  goto :: "string \<Rightarrow> (unit, 'w) io"
  wait_for_timeout :: "nat \<Rightarrow> (unit, 'w) io"
  scroll_to :: "rat \<Rightarrow> rat \<Rightarrow> (unit, 'w) io"
  scroll_height :: "(nat, 'w) io"
  page_y_offset :: "(rat, 'w) io"
  screenshot :: "(string, 'w) io"
  screenshot_clip :: "int \<Rightarrow> int \<Rightarrow> (string, 'w) io"
  save_screenshot :: "string \<Rightarrow> string \<Rightarrow> 'w \<Rightarrow> string option \<times> 'w"
  chat_completion :: "prompt \<Rightarrow> string \<Rightarrow> (string list, 'w) io"
  json_loads :: "string \<Rightarrow> json option"
  urljoin :: "string \<Rightarrow> string \<Rightarrow> string"
  element_href :: "rat \<Rightarrow> rat \<Rightarrow> (string option, 'w) io"
  element_info :: "int \<Rightarrow> int \<Rightarrow> (unit, 'w) io"
  element_click :: "int \<Rightarrow> int \<Rightarrow> (bool, 'w) io"
  mouse_click :: "rat \<Rightarrow> rat \<Rightarrow> (unit, 'w) io"
  keyboard_press :: "string \<Rightarrow> (unit, 'w) io"
  keyboard_type :: "string \<Rightarrow> (unit, 'w) io"
  page_settle :: "'w \<Rightarrow> 'w"
  now_isoformat :: "'w \<Rightarrow> string \<times> 'w"
  str_exn :: "exn \<Rightarrow> string"
  llm_api_available :: bool
  get_openai_client :: "(bool, 'w) io"
  analyze_navigation_viewport ::
    "nat \<Rightarrow> int \<Rightarrow> json list \<Rightarrow> 'w \<Rightarrow> (string list \<times> json list \<times> exn option) \<times> 'w"
  check_hidden_menus :: "'w \<Rightarrow> string list \<times> 'w"

text \<open>
  \<open>scroll_height\<close> is \<open>document.body.scrollHeight\<close>, which is a non-negative integer;
  \<open>chat_completion\<close> gives the message contents of \<open>response.choices\<close>;
  \<open>json_loads\<close> is \<open>json.loads\<close> with \<open>None\<close> for \<open>JSONDecodeError\<close>; \<open>element_href\<close> is the
  \<open>document.elementFromPoint\<close> script that returns \<open>link.href || null\<close>; \<open>element_click\<close> is
  the script that calls \<open>element.click()\<close> and returns its \<open>success\<close> field; \<open>page_settle\<close>
  is the block of waits after a pagination click, all of whose exceptions are swallowed;
  \<open>save_screenshot\<close> is a debug write that never raises; \<open>get_openai_client\<close> tells
  whether a client object came back.

  Two parts of \<open>_find_job_navigation\<close> (job_page_discovery.py) are operations of the
  environment. \<open>analyze_navigation_viewport viewport_count scroll_position found_elements\<close>
  is the body of its scroll loop: it scrolls to the position, asks the vision model for
  job-related elements, and clicks each new one; it gives the URLs it appended to
  \<open>discovered_urls\<close>, the elements it appended to \<open>found_elements\<close> and to
  \<open>all_discovered_elements\<close>, and the exception that left it, if any. Its loops run over
  the finite list of parsed elements. \<open>check_hidden_menus\<close> is \<open>_check_hidden_menus\<close>,
  which catches every exception. The traversal below is stated for whatever these return.
\<close>

text \<open>\<open>response.choices[0].message.content\<close>.\<close>

definition first_content :: "string list \<Rightarrow> exn + string" where
  "first_content choices = (case choices of [] \<Rightarrow> Inl IndexError | c # cs \<Rightarrow> Inr c)"

section \<open>viewport_analyzer.py\<close>

text \<open>\<open>field in element\<close> for a string \<open>field\<close>, \<open>len(v)\<close>, and iteration \<open>for x in v\<close>.\<close>

fun py_in :: "string \<Rightarrow> json \<Rightarrow> exn + bool" where
  "py_in k (JObj kvs) = Inr (map_of kvs k \<noteq> None)"
| "py_in k (JArr xs) = Inr (JStr k \<in> set xs)"
| "py_in k (JStr s) = Inr (contains k s)"
| "py_in k v = Inl TypeError"

fun py_len :: "json \<Rightarrow> exn + nat" where
  "py_len (JArr xs) = Inr (length xs)"
| "py_len (JStr s) = Inr (length s)"
| "py_len (JObj kvs) = Inr (length kvs)"
| "py_len v = Inl TypeError"

fun py_iter :: "json \<Rightarrow> exn + json list" where
  "py_iter (JArr xs) = Inr xs"
| "py_iter (JStr s) = Inr (map (\<lambda>c. JStr [c]) s)"
| "py_iter (JObj kvs) = Inr (map (\<lambda>kv. JStr (fst kv)) kvs)"
| "py_iter v = Inl TypeError"

text \<open>\<open>isinstance(x, (int, float)) and x >= 0\<close>; \<open>bool\<close> is a subclass of \<open>int\<close>.\<close>

fun nonneg_number :: "json \<Rightarrow> bool" where
  "nonneg_number (JNum r) = (r \<ge> 0)"
| "nonneg_number (JBool b) = True"
| "nonneg_number v = False"

fun check_required :: "string list \<Rightarrow> json \<Rightarrow> exn + unit" where
  "check_required [] element = Inr ()"
| "check_required (field # rest) element =
     bindE (py_in field element) (\<lambda>present.
       if present then check_required rest element else Inl ValueError)"

definition valid_types :: "string list" where
  "valid_types = [''button'', ''input'', ''link'', ''clickable'']"

definition validate_element :: "json \<Rightarrow> exn + unit" where
  "validate_element element =
     bindE (check_required [''type'', ''label'', ''bbox'', ''semantic_role''] element) (\<lambda>_.
     bindE (get_item element ''type'') (\<lambda>ty.
       if \<not> (case ty of JStr t \<Rightarrow> t \<in> set valid_types | _ \<Rightarrow> False) then Inl ValueError
       else
         bindE (get_item element ''bbox'') (\<lambda>bbox.
           case bbox of
             JArr bs \<Rightarrow>
               if length bs \<noteq> 4 then Inl ValueError
               else if list_all nonneg_number bs then Inr ()
               else Inl ValueError
           | _ \<Rightarrow> Inl ValueError)))"

fun validate_elements :: "json list \<Rightarrow> exn + unit" where
  "validate_elements [] = Inr ()"
| "validate_elements (element # rest) =
     bindE (validate_element element) (\<lambda>_. validate_elements rest)"

text \<open>
  \<open>_parse_vision_response\<close>: a \<open>JSONDecodeError\<close> is re-raised as \<open>ValueError\<close>, as is every
  violation of the expected structure.
\<close>

definition parse_vision_response :: "(string \<Rightarrow> json option) \<Rightarrow> string \<Rightarrow> exn + json" where
  "parse_vision_response loads response =
     (case loads (extract_json_startswith response) of
        None \<Rightarrow> Inl ValueError
      | Some parsed \<Rightarrow>
          (case parsed of
             JObj kvs \<Rightarrow>
               (case map_of kvs ''elements'' of
                  None \<Rightarrow> Inl ValueError
                | Some (JArr elements) \<Rightarrow> bindE (validate_elements elements) (\<lambda>_. Inr parsed)
                | Some _ \<Rightarrow> Inl ValueError)
           | _ \<Rightarrow> Inl ValueError))"

text \<open>\<open>_call_vision_model\<close> returns \<open>response.choices[0].message.content.strip()\<close>.\<close>

definition call_vision_model :: "'w env \<Rightarrow> prompt \<Rightarrow> string \<Rightarrow> (string, 'w) io" where
  "call_vision_model env prompt screenshot_bytes =
     io_bind (chat_completion env prompt screenshot_bytes) (\<lambda>choices.
     io_bind (io_lift (first_content choices)) (\<lambda>content.
     io_ret (strip content)))"

text \<open>\<open>{**d, **analysis_result}\<close>: the keys of the second dictionary override.\<close>

definition dict_merge :: "(string \<times> json) list \<Rightarrow> (string \<times> json) list \<Rightarrow> (string \<times> json) list" where
  "dict_merge d extra = fold (\<lambda>kv acc. AList.update (fst kv) (snd kv) acc) extra d"

definition viewport_json :: "(int \<times> int) option \<Rightarrow> json" where
  "viewport_json vs =
     (let (w, h) = (case vs of None \<Rightarrow> (1280, 800) | Some v \<Rightarrow> v)
      in JObj [(''width'', JNum (of_int w)), (''height'', JNum (of_int h))])"

text \<open>
  \<open>ViewportAnalyzer.analyze_viewport_screenshot\<close>: every exception of the body becomes a
  result with \<open>success: False\<close>.
\<close>

definition element_types_or_default :: "string list option \<Rightarrow> string list" where
  "element_types_or_default element_types =
     (case element_types of
        None \<Rightarrow> [''button'', ''input'', ''link'', ''clickable'']
      | Some ts \<Rightarrow> ts)"

definition analyze_viewport_screenshot ::
  "'w env \<Rightarrow> string option \<Rightarrow> bool \<Rightarrow> string list option \<Rightarrow> 'w \<Rightarrow> json \<times> 'w" where
  "analyze_viewport_screenshot env page_url_arg include_description element_types_arg w =
     (let element_types = element_types_or_default element_types_arg;
          url = (case page_url_arg of
                   None \<Rightarrow> page_url env w
                 | Some u \<Rightarrow> if u = [] then page_url env w else u);
          body =
            io_bind (screenshot env) (\<lambda>screenshot_bytes w1.
              let (screenshot_path, w2) = save_screenshot env url screenshot_bytes w1;
                  vs = viewport_size env w2
              in io_bind (call_vision_model env (AnalysisPrompt element_types include_description)
                            screenshot_bytes) (\<lambda>response.
                 io_bind (io_lift (parse_vision_response (json_loads env) response)) (\<lambda>analysis w3.
                   let (ts, w4) = now_isoformat env w3
                   in (Inr (JObj (dict_merge
                         [(''success'', JBool True),
                          (''screenshot_path'',
                             (case screenshot_path of None \<Rightarrow> JNull | Some sp \<Rightarrow> JStr sp)),
                          (''page_url'', JStr url),
                          (''viewport_size'', viewport_json vs),
                          (''timestamp'', JStr ts)]
                         (case analysis of JObj kvs \<Rightarrow> kvs | _ \<Rightarrow> []))), w4))) w2)
      in case body w of
           (Inr result, w') \<Rightarrow> (result, w')
         | (Inl e, w') \<Rightarrow>
             (let (ts, w'') = now_isoformat env w'
              in (JObj [(''success'', JBool False),
                        (''error'', JStr (str_exn env e)),
                        (''page_url'', JStr url),
                        (''timestamp'', JStr ts)], w'')))"

text \<open>\<open>_perform_input\<close>: the click, the keys and the result it returns.\<close>

definition perform_input :: "'w env \<Rightarrow> rat list option \<Rightarrow> string option \<Rightarrow> (json, 'w) io" where
  "perform_input env bbox text =
     (case bbox of
        None \<Rightarrow> io_raise ValueError
      | Some b \<Rightarrow>
          if length b \<noteq> 4 then io_raise ValueError
          else (case text of
             None \<Rightarrow> io_raise ValueError
           | Some t \<Rightarrow>
               if t = [] then io_raise ValueError
               else
                 (let click_x = b ! 0 + floordiv2 (b ! 2);
                      click_y = b ! 1 + floordiv2 (b ! 3)
                  in io_bind (mouse_click env click_x click_y) (\<lambda>_.
                     io_bind (wait_for_timeout env 1000) (\<lambda>_.
                     io_bind (keyboard_press env ''Control+a'') (\<lambda>_.
                     io_bind (wait_for_timeout env 200) (\<lambda>_.
                     io_bind (keyboard_type env t) (\<lambda>_.
                     io_bind (wait_for_timeout env 500) (\<lambda>_ w.
                       let (ts, w') = now_isoformat env w
                       in (Inr (JObj
                            [(''success'', JBool True),
                             (''action_type'', JStr ''input''),
                             (''coordinates'', JArr [JNum click_x, JNum click_y]),
                             (''bbox'', JArr (map JNum b)),
                             (''text'', JStr t),
                             (''timestamp'', JStr ts)]), w'))))))))))"

text \<open>
  \<open>perform_action\<close> with \<open>action_type = "input"\<close>: every exception of \<open>_perform_input\<close>
  becomes a result with \<open>success: False\<close>.
\<close>

definition perform_action_input ::
  "'w env \<Rightarrow> rat list option \<Rightarrow> string option \<Rightarrow> 'w \<Rightarrow> json \<times> 'w" where
  "perform_action_input env bbox text w =
     (case perform_input env bbox text w of
        (Inr result, w') \<Rightarrow> (result, w')
      | (Inl e, w') \<Rightarrow>
          (let (ts, w'') = now_isoformat env w'
           in (JObj [(''success'', JBool False),
                     (''error'', JStr (str_exn env e)),
                     (''action_type'', JStr ''input''),
                     (''timestamp'', JStr ts)], w'')))"

text \<open>
  The tool function \<open>perform_input_action\<close>: it builds a \<open>ViewportAnalyzer\<close>, whose
  constructor raises \<open>ValueError\<close> when no client is available, and calls \<open>perform_action\<close>.
\<close>

definition perform_input_action ::
  "'w env \<Rightarrow> rat list option \<Rightarrow> string option \<Rightarrow> (json, 'w) io" where
  "perform_input_action env bbox text =
     io_bind (get_openai_client env) (\<lambda>client w.
       if \<not> client then (Inl ValueError, w)
       else (let (result, w') = perform_action_input env bbox text w in (Inr result, w')))"

section \<open>job_page_discovery.py: link queries\<close>

fun as_number :: "json \<Rightarrow> rat option" where
  "as_number (JNum r) = Some r"
| "as_number (JBool b) = Some (if b then 1 else 0)"
| "as_number v = None"

text \<open>
  The click position of a parsed \<open>bbox\<close> value. \<open>Inr None\<close>: its length is not 4 and the
  element is skipped. Both branches use all four entries in arithmetic, so an entry
  that is not a number raises \<open>TypeError\<close>.
\<close>

definition click_point_of :: "json \<Rightarrow> exn + (rat \<times> rat) option" where
  "click_point_of bbox =
     bindE (py_len bbox) (\<lambda>n.
       if n \<noteq> 4 then Inr None
       else (case bbox of
               JArr bs \<Rightarrow>
                 if list_all (\<lambda>b. as_number b \<noteq> None) bs
                 then Inr (resolve_click_point (map (\<lambda>b. the (as_number b)) bs))
                 else Inl TypeError
             | JObj kvs \<Rightarrow> Inl KeyError
             | _ \<Rightarrow> Inl TypeError))"

text \<open>
  The loop over the parsed elements in \<open>_find_job_links_on_page\<close> and in
  \<open>_find_related_job_pages\<close>; \<open>point_of\<close> is the click position each computes from
  \<open>element['bbox']\<close>. The link under the point is read without clicking, and
  \<open>urljoin(page.url, href)\<close> is collected when it is not empty.
\<close>

fun collect_links ::
  "'w env \<Rightarrow> (json \<Rightarrow> exn + (rat \<times> rat) option) \<Rightarrow> json list \<Rightarrow> string list
     \<Rightarrow> (string list, 'w) io" where
  "collect_links env point_of [] links = io_ret links"
| "collect_links env point_of (element # rest) links =
     io_bind (io_lift (get_item element ''bbox'')) (\<lambda>bbox.
     io_bind (io_lift (point_of bbox)) (\<lambda>point.
       case point of
         None \<Rightarrow> collect_links env point_of rest links
       | Some (click_x, click_y) \<Rightarrow>
           io_bind (element_href env click_x click_y) (\<lambda>href w.
             case href of
               None \<Rightarrow> collect_links env point_of rest links w
             | Some h \<Rightarrow>
                 if h = [] then collect_links env point_of rest links w
                 else collect_links env point_of rest
                        (links @ [urljoin env (page_url env w) h]) w)))"

text \<open>
  \<open>_find_job_links_on_page\<close>: \<open>[]\<close> on \<open>JSONDecodeError\<close> and on every other exception.
\<close>

definition find_job_links_on_page :: "'w env \<Rightarrow> 'w \<Rightarrow> string list \<times> 'w" where
  "find_job_links_on_page env w =
     (case io_bind (screenshot env) (\<lambda>screenshot_bytes.
           io_bind (chat_completion env JobLinksPrompt screenshot_bytes) (\<lambda>choices.
           io_bind (io_lift (first_content choices)) (\<lambda>content.
             case json_loads env (extract_json_startswith (strip content)) of
               None \<Rightarrow> io_ret []
             | Some elements \<Rightarrow>
                 io_bind (io_lift (py_iter elements)) (\<lambda>es.
                 collect_links env click_point_of es [])))) w of
        (Inr links, w') \<Rightarrow> (links, w')
      | (Inl e, w') \<Rightarrow> ([], w'))"

text \<open>
  The same steps as they stand in \<open>_find_job_navigation\<close>: strip the content, extract the
  fenced block, and hand it to \<open>json.loads\<close>.
\<close>

definition load_elements :: "(string \<Rightarrow> json option) \<Rightarrow> string \<Rightarrow> json option" where
  "load_elements loads content = loads (extract_json_find (strip content))"

section \<open>vision_pagination.py\<close>

text \<open>
  \<open>str.lower()\<close> and \<open>str.upper()\<close> on code points below 256. The upper-case forms of
  \<open>0xB5\<close>, \<open>0xDF\<close> and \<open>0xFF\<close> are not below 256 (or are two letters); they are left as they
  are, which no comparison with an ASCII word can tell apart.
\<close>

definition lower_char :: "char \<Rightarrow> char" where
  "lower_char c = (let n = (of_char c :: nat) in
     if (65 \<le> n \<and> n \<le> 90) \<or> (192 \<le> n \<and> n \<le> 222 \<and> n \<noteq> 215)
     then char_of (n + 32) else c)"

definition upper_char :: "char \<Rightarrow> char" where
  "upper_char c = (let n = (of_char c :: nat) in
     if (97 \<le> n \<and> n \<le> 122) \<or> (224 \<le> n \<and> n \<le> 254 \<and> n \<noteq> 247)
     then char_of (n - 32) else c)"

definition lower :: "string \<Rightarrow> string" where
  "lower s = map lower_char s"

definition upper :: "string \<Rightarrow> string" where
  "upper s = map upper_char s"

text \<open>\<open>s.split(',')\<close>.\<close>

fun split_on :: "char \<Rightarrow> string \<Rightarrow> string list" where
  "split_on sep [] = [[]]"
| "split_on sep (c # cs) =
     (if c = sep then [] # split_on sep cs
      else (case split_on sep cs of
              [] \<Rightarrow> [[c]]
            | part # parts \<Rightarrow> (c # part) # parts))"

text \<open>
  \<open>int(s)\<close> on a string: whitespace around the number, an optional sign, and decimal
  digits that single underscores may separate; \<open>None\<close> stands for \<open>ValueError\<close>. The
  whitespace \<open>int\<close> skips is the ASCII whitespace (tab, line feed, vertical tab, form feed,
  carriage return, space) and the spaces \<open>0x85\<close> and \<open>0xA0\<close>, which it first replaces by
  spaces; the separators \<open>0x1C\<close> to \<open>0x1F\<close>, which \<open>str.strip\<close> removes, are not among
  them. A number of more than \<open>sys.int_info.default_max_str_digits = 4300\<close> digits is
  refused.
\<close>

definition int_space :: "char \<Rightarrow> bool" where
  "int_space c = (let n = (of_char c :: nat) in
     (9 \<le> n \<and> n \<le> 13) \<or> n = 32 \<or> n = 133 \<or> n = 160)"

definition int_max_str_digits :: nat where
  "int_max_str_digits = 4300"

definition is_digit :: "char \<Rightarrow> bool" where
  "is_digit c = (let n = (of_char c :: nat) in 48 \<le> n \<and> n \<le> 57)"

fun digits_ok :: "string \<Rightarrow> bool" where
  "digits_ok [] = False"
| "digits_ok [c] = is_digit c"
| "digits_ok (c # d # cs) =
     (is_digit c \<and> (if d = CHR ''_'' then digits_ok cs else digits_ok (d # cs)))"

definition digits_value :: "string \<Rightarrow> int" where
  "digits_value ds =
     foldl (\<lambda>acc c. acc * 10 + (int (of_char c) - 48)) 0 (filter (\<lambda>c. c \<noteq> CHR ''_'') ds)"

definition py_int :: "string \<Rightarrow> int option" where
  "py_int s =
     (let t = rev (dropWhile int_space (rev (dropWhile int_space s)));
          (sign, body) =
            (case t of
               [] \<Rightarrow> (1, [])
             | c # cs \<Rightarrow>
                 if c = CHR ''-'' then (- 1, cs)
                 else if c = CHR ''+'' then (1, cs)
                 else (1, t))
      in if digits_ok body \<and> length (filter is_digit body) \<le> int_max_str_digits
         then Some (sign * digits_value body)
         else None)"

text \<open>\<open>int(x)\<close> on a number truncates towards zero.\<close>

definition int_trunc :: "rat \<Rightarrow> int" where
  "int_trunc r = (if r \<ge> 0 then \<lfloor>r\<rfloor> else \<lceil>r\<rceil>)"

text \<open>
  The pagination session: \<open>total_clicks\<close>, and the coordinates of every call of the script
  that runs \<open>element.click()\<close>, in order.
\<close>

record pagination_state =
  total_clicks :: nat
  clicks_issued :: "(int \<times> int) list"

definition max_clicks :: nat where
  "max_clicks = 20"

definition viewport_or_default :: "'w env \<Rightarrow> 'w \<Rightarrow> int \<times> int" where
  "viewport_or_default env w = (case viewport_size env w of None \<Rightarrow> (1280, 800) | Some v \<Rightarrow> v)"

text \<open>
  \<^verbatim>\<open>
  parts = vision_result.strip().split(',')
  if len(parts) == 3 and parts[0].upper() == 'CLICK':
      click_x = int(parts[1])
      click_y = int(parts[2])
  \<close>
\<close>

definition parse_click :: "string \<Rightarrow> exn + (int \<times> int) option" where
  "parse_click vision_result =
     (let parts = split_on CHR '','' (strip vision_result)
      in if length parts = 3 \<and> upper (parts ! 0) = ''CLICK'' then
           (case py_int (parts ! 1) of
              None \<Rightarrow> Inl ValueError
            | Some click_x \<Rightarrow>
                (case py_int (parts ! 2) of
                   None \<Rightarrow> Inl ValueError
                 | Some click_y \<Rightarrow> Inr (Some (click_x, click_y))))
         else Inr None)"

definition in_viewport :: "int \<times> int \<Rightarrow> int \<Rightarrow> int \<Rightarrow> bool" where
  "in_viewport vs click_x click_y =
     (0 \<le> click_x \<and> click_x < fst vs \<and> 0 \<le> click_y \<and> click_y < snd vs)"

text \<open>\<open>except (ValueError, IndexError)\<close> around the parsing and the click.\<close>

definition caught_by_parse :: "exn \<Rightarrow> bool" where
  "caught_by_parse e = (is_ValueError e \<or> e = IndexError)"

text \<open>
  What the loop body does with one vision result. \<open>Inr True\<close>: a click succeeded and the
  scan is abandoned; \<open>Inr False\<close>: nothing was clicked; \<open>Inl e\<close>: an exception leaves the
  loops for the outer handler.
\<close>

definition process_vision_result ::
  "'w env \<Rightarrow> int \<times> int \<Rightarrow> string \<Rightarrow> pagination_state \<Rightarrow> 'w
     \<Rightarrow> (exn + bool) \<times> pagination_state \<times> 'w" where
  "process_vision_result env vs vision_result st w =
     (if contains ''none'' (lower vision_result) then (Inr False, st, w)
      else
        (case parse_click vision_result of
           Inl e \<Rightarrow> (Inr False, st, w)
         | Inr None \<Rightarrow> (Inr False, st, w)
         | Inr (Some (click_x, click_y)) \<Rightarrow>
             if in_viewport vs click_x click_y then
               (case element_info env click_x click_y w of
                  (Inl e, w1) \<Rightarrow> ((if caught_by_parse e then Inr False else Inl e), st, w1)
                | (Inr u, w1) \<Rightarrow>
                    (let st1 = st\<lparr>clicks_issued := clicks_issued st @ [(click_x, click_y)]\<rparr>
                     in case element_click env click_x click_y w1 of
                          (Inl e, w2) \<Rightarrow>
                            ((if caught_by_parse e then Inr False else Inl e), st1, w2)
                        | (Inr success, w2) \<Rightarrow>
                            if success
                            then (Inr True, st1\<lparr>total_clicks := total_clicks st1 + 1\<rparr>,
                                  page_settle env w2)
                            else (Inr False, st1, w2)))
             else (Inr False, st, w)))"

text \<open>
  \<open>for iteration in range(max_iterations)\<close>: the scan of one round, from the current
  scroll position downwards.
\<close>

fun scan_viewports ::
  "'w env \<Rightarrow> int \<times> int \<Rightarrow> int \<Rightarrow> int \<Rightarrow> nat \<Rightarrow> pagination_state \<Rightarrow> 'w
     \<Rightarrow> (exn + bool) \<times> pagination_state \<times> 'w" where
  "scan_viewports env vs scroll_step page_height 0 st w = (Inr False, st, w)"
| "scan_viewports env vs scroll_step page_height (Suc n) st w =
     (case page_y_offset env w of
        (Inl e, w1) \<Rightarrow> scan_viewports env vs scroll_step page_height n st w1
      | (Inr current_scroll, w1) \<Rightarrow>
          (case screenshot env w1 of
             (Inl e, w2) \<Rightarrow> scan_viewports env vs scroll_step page_height n st w2
           | (Inr screenshot_bytes, w2) \<Rightarrow>
               (let w3 = snd (save_screenshot env (page_url env w2) screenshot_bytes w2)
                in case chat_completion env (PaginationPrompt (fst vs) (snd vs))
                          screenshot_bytes w3 of
                     (Inl e, w4) \<Rightarrow> (Inl e, st, w4)
                   | (Inr choices, w4) \<Rightarrow>
                       (let vision_result = (case choices of [] \<Rightarrow> [] | c # cs \<Rightarrow> strip c)
                        in case process_vision_result env vs vision_result st w4 of
                             (Inl e, st', w5) \<Rightarrow> (Inl e, st', w5)
                           | (Inr found, st', w5) \<Rightarrow>
                               if found then (Inr True, st', w5)
                               else if current_scroll + of_int scroll_step \<ge> of_int page_height
                               then (Inr False, st', w5)
                               else
                                 (case scroll_to env 0 (current_scroll + of_int scroll_step) w5 of
                                    (Inl e, w6) \<Rightarrow> (Inr False, st', w6)
                                  | (Inr u, w6) \<Rightarrow>
                                      (case wait_for_timeout env 1000 w6 of
                                         (Inl e, w7) \<Rightarrow> (Inr False, st', w7)
                                       | (Inr u', w7) \<Rightarrow>
                                           scan_viewports env vs scroll_step page_height n
                                             st' w7))))))"

text \<open>
  The set-up of a round: back to the top, the page height, the scroll step
  \<open>int(viewport_size['height'] * 0.75)\<close> and
  \<open>max_iterations = min(15, (page_height // scroll_step) + 2)\<close>.
\<close>

definition round_setup :: "'w env \<Rightarrow> int \<times> int \<Rightarrow> (int \<times> int \<times> nat, 'w) io" where
  "round_setup env vs =
     io_bind (scroll_to env 0 0) (\<lambda>_.
     io_bind (wait_for_timeout env 500) (\<lambda>_.
     io_bind (scroll_height env) (\<lambda>height.
       let page_height = int height;
           scroll_step = int_trunc (of_int (snd vs) * (3 / 4))
       in if scroll_step = 0 then io_raise ZeroDivisionError
          else io_ret (page_height, scroll_step,
                       nat (min 15 (page_height div scroll_step + 2))))))"

text \<open>One round of the outer loop; an exception in the set-up ends the loop.\<close>

definition pagination_round ::
  "'w env \<Rightarrow> int \<times> int \<Rightarrow> pagination_state \<Rightarrow> 'w
     \<Rightarrow> (exn + bool) \<times> pagination_state \<times> 'w" where
  "pagination_round env vs st w =
     (case round_setup env vs w of
        (Inl e, w1) \<Rightarrow> (Inr False, st, w1)
      | (Inr (page_height, scroll_step, max_iterations), w1) \<Rightarrow>
          scan_viewports env vs scroll_step page_height max_iterations st w1)"

lemma process_vision_result_found:
  "process_vision_result env vs r st w = (Inr True, st', w') \<Longrightarrow>
   total_clicks st' = total_clicks st + 1"
  by (auto simp: process_vision_result_def Let_def
      split: if_splits sum.splits option.splits prod.splits)

lemma process_vision_result_not_found:
  "process_vision_result env vs r st w = (Inr False, st', w') \<Longrightarrow>
   total_clicks st' = total_clicks st"
  by (auto simp: process_vision_result_def Let_def
      split: if_splits sum.splits option.splits prod.splits)

lemma scan_viewports_found:
  "scan_viewports env vs scroll_step page_height n st w = (Inr True, st', w') \<Longrightarrow>
   total_clicks st' = total_clicks st + 1"
proof (induction n arbitrary: st w)
  case 0
  then show ?case by simp
next
  case (Suc n)
  then show ?case
    by (auto simp: Let_def split: sum.splits prod.splits if_splits
        dest: process_vision_result_found process_vision_result_not_found)
qed

lemma pagination_round_found:
  "pagination_round env vs st w = (Inr True, st', w') \<Longrightarrow>
   total_clicks st' = total_clicks st + 1"
  by (auto simp: pagination_round_def split: sum.splits prod.splits
      dest: scan_viewports_found)

text \<open>\<open>while total_clicks < max_clicks\<close>: a round that found nothing ends the loop.\<close>

function pagination_rounds ::
  "'w env \<Rightarrow> int \<times> int \<Rightarrow> pagination_state \<Rightarrow> 'w
     \<Rightarrow> (exn + unit) \<times> pagination_state \<times> 'w" where
  "pagination_rounds env vs st w =
     (if total_clicks st < max_clicks then
        (case pagination_round env vs st w of
           (Inl e, st', w') \<Rightarrow> (Inl e, st', w')
         | (Inr found, st', w') \<Rightarrow>
             if found then pagination_rounds env vs st' w' else (Inr (), st', w'))
      else (Inr (), st, w))"
  by pat_completeness auto
termination
proof (relation "measure (\<lambda>(env, vs, st, w). max_clicks - total_clicks st)")
  show "wf (measure (\<lambda>(env, vs, st, w). max_clicks - total_clicks st))" by simp
next
  fix env :: "'w env" and vs st w x1 x2 st' w' found
  assume "total_clicks st < max_clicks"
    and "(x1, x2) = pagination_round env vs st w"
    and "(st', w') = x2" and "x1 = Inr found" and "found"
  then have "pagination_round env vs st w = (Inr True, st', w')" by (cases found) auto
  from pagination_round_found [OF this] \<open>total_clicks st < max_clicks\<close>
  show "((env, vs, st', w'), (env, vs, st, w))
          \<in> measure (\<lambda>(env, vs, st, w). max_clicks - total_clicks st)"
    by simp
qed

declare pagination_rounds.simps [simp del]

text \<open>
  \<open>vision_detect_pagination\<close>. The result is the returned dictionary, together with the
  session state and the world it leaves.
\<close>

definition vision_detect_pagination :: "'w env \<Rightarrow> 'w \<Rightarrow> json \<times> pagination_state \<times> 'w" where
  "vision_detect_pagination env w =
     (let none = JObj [(''mode'', JStr ''none'')];
          st0 = \<lparr>total_clicks = 0, clicks_issued = []\<rparr>
      in if \<not> llm_api_available env then (none, st0, w)
         else
           (case get_openai_client env w of
              (Inl e, w1) \<Rightarrow> (none, st0, w1)
            | (Inr client, w1) \<Rightarrow>
                if \<not> client then (none, st0, w1)
                else
                  (case pagination_rounds env (viewport_or_default env w1) st0 w1 of
                     (Inl e, st, w2) \<Rightarrow> (none, st, w2)
                   | (Inr u, st, w2) \<Rightarrow>
                       if total_clicks st > 0
                       then (JObj [(''mode'', JStr ''vision_click''),
                                   (''total_clicks'', JNum (of_nat (total_clicks st)))],
                             st, w2)
                       else (none, st, w2))))"

section \<open>job_page_discovery.py: the traversal\<close>

definition MAX_PAGES_TO_EXPLORE :: nat where
  "MAX_PAGES_TO_EXPLORE = 50"

definition MAX_DEPTH :: nat where
  "MAX_DEPTH = 3"

text \<open>The truth value of a parsed JSON value in a condition.\<close>

fun py_truthy :: "json \<Rightarrow> bool" where
  "py_truthy JNull = False"
| "py_truthy (JBool b) = b"
| "py_truthy (JNum r) = (r \<noteq> 0)"
| "py_truthy (JStr s) = (s \<noteq> [])"
| "py_truthy (JArr xs) = (xs \<noteq> [])"
| "py_truthy (JObj kvs) = (kvs \<noteq> [])"

text \<open>\<open>d.get(k, default)\<close> on a dictionary.\<close>

fun dict_get :: "json \<Rightarrow> string \<Rightarrow> json \<Rightarrow> json" where
  "dict_get (JObj kvs) k dflt = (case map_of kvs k of None \<Rightarrow> dflt | Some v \<Rightarrow> v)"
| "dict_get v k dflt = dflt"

text \<open>
  \<open>_verify_job_listing_page\<close>: the parsed answer of the vision model; when it is not JSON,
  the text heuristic with confidence 0.5; on any exception, \<open>is_job_page: False\<close>.
\<close>

definition verify_job_listing_page :: "'w env \<Rightarrow> 'w \<Rightarrow> json \<times> 'w" where
  "verify_job_listing_page env w =
     (let (width, height) = viewport_or_default env w
      in case io_bind (screenshot_clip env width (min 2000 (height * 2))) (\<lambda>screenshot_bytes.
              io_bind (chat_completion env VerifyJobPagePrompt screenshot_bytes) (\<lambda>choices.
              io_bind (io_lift (first_content choices)) (\<lambda>content.
                let result = strip content
                in io_ret
                     (case json_loads env result of
                        Some analysis \<Rightarrow> analysis
                      | None \<Rightarrow>
                          JObj [(''is_job_page'',
                                   JBool (contains ''true'' (lower result) \<and>
                                          contains ''job'' (lower result))),
                                (''confidence'', JNum (1 / 2)),
                                (''page_type'', JStr ''unknown'')])))) w of
           (Inr analysis, w') \<Rightarrow> (analysis, w')
         | (Inl e, w') \<Rightarrow>
             (JObj [(''is_job_page'', JBool False), (''confidence'', JNum 0)], w'))"

text \<open>
  The click position of \<open>_find_related_job_pages\<close>:
  \<open>bbox[0] + bbox[2] // 2\<close> and \<open>bbox[1] + bbox[3] // 2\<close>, without a check of the length.
\<close>

definition py_half_offset :: "json \<Rightarrow> json \<Rightarrow> exn + rat" where
  "py_half_offset origin extent =
     (case as_number extent of
        None \<Rightarrow> Inl TypeError
      | Some s \<Rightarrow>
          (case as_number origin of
             None \<Rightarrow> Inl TypeError
           | Some a \<Rightarrow> Inr (a + floordiv2 s)))"

definition related_click_point :: "json \<Rightarrow> exn + (rat \<times> rat) option" where
  "related_click_point bbox =
     bindE (py_index bbox 0) (\<lambda>b0.
     bindE (py_index bbox 2) (\<lambda>b2.
     bindE (py_half_offset b0 b2) (\<lambda>click_x.
     bindE (py_index bbox 1) (\<lambda>b1.
     bindE (py_index bbox 3) (\<lambda>b3.
     bindE (py_half_offset b1 b3) (\<lambda>click_y.
     Inr (Some (click_x, click_y))))))))"

definition find_related_job_pages :: "'w env \<Rightarrow> 'w \<Rightarrow> string list \<times> 'w" where
  "find_related_job_pages env w =
     (case io_bind (screenshot env) (\<lambda>screenshot_bytes.
           io_bind (chat_completion env RelatedPagesPrompt screenshot_bytes) (\<lambda>choices.
           io_bind (io_lift (first_content choices)) (\<lambda>content.
             case json_loads env (extract_json_find (strip content)) of
               None \<Rightarrow> io_ret []
             | Some elements \<Rightarrow>
                 io_bind (io_lift (py_iter elements)) (\<lambda>es.
                 collect_links env related_click_point es [])))) w of
        (Inr links, w') \<Rightarrow> (links, w')
      | (Inl e, w') \<Rightarrow> ([], w'))"

text \<open>
  The state of a \<open>JobPageDiscovery\<close> object; \<open>fresh_discovery\<close> is what \<open>__init__\<close> sets.
\<close>

record discovery_state =
  visited_urls :: "string fset"
  job_pages :: "json list"
  all_discovered_elements :: "json list"

definition fresh_discovery :: discovery_state where
  "fresh_discovery = \<lparr>visited_urls = {||}, job_pages = [], all_discovered_elements = []\<rparr>"

text \<open>
  The scroll loop of \<open>_find_job_navigation\<close>:
  \<^verbatim>\<open>
  while scroll_position < page_height:
      ...                                  # analyse the viewport at scroll_position
      scroll_position += viewport_height
      viewport_count += 1
  \<close>
  The body is the operation \<open>analyze_navigation_viewport\<close>. The loop has no bound of its
  own: with a viewport height that is not positive it ends only by an exception, so the
  walk is a partial function, and \<open>None\<close> means that it does not return.
\<close>

partial_function (option) navigation_walk ::
  "'w env \<Rightarrow> int \<Rightarrow> int \<Rightarrow> int \<Rightarrow> nat \<Rightarrow> string list \<Rightarrow> json list \<Rightarrow> 'w
     \<Rightarrow> ((string list \<times> json list \<times> exn option) \<times> 'w) option" where
  "navigation_walk env viewport_height page_height scroll_position viewport_count
       discovered_urls found_elements w =
     (if scroll_position < page_height then
        (case analyze_navigation_viewport env viewport_count scroll_position found_elements w of
           ((urls, elements, raised), w') \<Rightarrow>
             (case raised of
                Some e \<Rightarrow>
                  Some ((discovered_urls @ urls, found_elements @ elements, Some e), w')
              | None \<Rightarrow>
                  navigation_walk env viewport_height page_height
                    (scroll_position + viewport_height) (viewport_count + 1)
                    (discovered_urls @ urls) (found_elements @ elements) w'))
      else Some ((discovered_urls, found_elements, None), w))"

text \<open>
  \<open>_find_job_navigation\<close>: the URLs reached by clicking, or, when there are none, what the
  hidden menus give; every exception ends it with the URLs found so far. The elements
  found are appended to \<open>all_discovered_elements\<close>.
\<close>

definition find_job_navigation ::
  "'w env \<Rightarrow> discovery_state \<Rightarrow> 'w \<Rightarrow> (string list \<times> discovery_state \<times> 'w) option" where
  "find_job_navigation env self w =
     (let viewport_height = (case viewport_size env w of None \<Rightarrow> 800 | Some (width, height) \<Rightarrow> height)
      in case scroll_height env w of
           (Inl e, w1) \<Rightarrow> Some ([], self, w1)
         | (Inr page_height, w1) \<Rightarrow>
             (case navigation_walk env viewport_height (int page_height) 0 0 [] [] w1 of
                None \<Rightarrow> None
              | Some ((discovered_urls, found_elements, raised), w2) \<Rightarrow>
                  (let self1 = self\<lparr>all_discovered_elements :=
                                 all_discovered_elements self @ found_elements\<rparr>
                   in if raised \<noteq> None \<or> discovered_urls \<noteq> [] then Some (discovered_urls, self1, w2)
                      else
                        (case scroll_to env 0 0 w2 of
                           (Inl e, w3) \<Rightarrow> Some (discovered_urls, self1, w3)
                         | (Inr u, w3) \<Rightarrow>
                             (case wait_for_timeout env 1000 w3 of
                                (Inl e, w4) \<Rightarrow> Some (discovered_urls, self1, w4)
                              | (Inr u', w4) \<Rightarrow>
                                  (let (menu_urls, w5) = check_hidden_menus env w4
                                   in Some (discovered_urls @ menu_urls, self1, w5)))))))"

text \<open>
  \<^verbatim>\<open>
  for link in links:
      if link not in self.visited_urls:
          pages_to_explore.append((link, depth + 1))
  \<close>
\<close>

definition enqueue_new ::
  "string list \<Rightarrow> nat \<Rightarrow> string fset \<Rightarrow> (string \<times> nat) list \<Rightarrow> (string \<times> nat) list" where
  "enqueue_new links next_depth visited pages_to_explore =
     pages_to_explore @ map (\<lambda>link. (link, next_depth)) (filter (\<lambda>link. link |\<notin>| visited) links)"

text \<open>
  The \<open>try\<close> block of the loop body, for a URL that has just been marked visited. An
  exception anywhere in it goes to \<open>continue\<close> with what has been changed so far. Log
  output is not modelled.
\<close>

definition explore_page ::
  "'w env \<Rightarrow> string \<Rightarrow> nat \<Rightarrow> (string \<times> nat) list \<Rightarrow> discovery_state \<Rightarrow> 'w
     \<Rightarrow> ((string \<times> nat) list \<times> discovery_state \<times> 'w) option" where
  "explore_page env current_url depth pages_to_explore self w =
     (case goto env current_url w of
        (Inl e, w1) \<Rightarrow> Some (pages_to_explore, self, w1)
      | (Inr u, w1) \<Rightarrow>
          (case wait_for_timeout env 3000 w1 of
             (Inl e, w2) \<Rightarrow> Some (pages_to_explore, self, w2)
           | (Inr u', w2) \<Rightarrow>
               (let (is_job_page, w3) = verify_job_listing_page env w2
                in case get_item is_job_page ''is_job_page'' of
                     Inl e \<Rightarrow> Some (pages_to_explore, self, w3)
                   | Inr flag \<Rightarrow>
                       if py_truthy flag then
                         (case get_item is_job_page ''confidence'' of
                            Inl e \<Rightarrow> Some (pages_to_explore, self, w3)
                          | Inr confidence \<Rightarrow>
                              (let self1 = self\<lparr>job_pages := job_pages self @
                                     [JObj [(''url'', JStr current_url),
                                            (''confidence'', confidence),
                                            (''job_count'',
                                               dict_get is_job_page ''job_count'' (JNum 0)),
                                            (''page_type'',
                                               dict_get is_job_page ''page_type''
                                                 (JStr ''unknown'')),
                                            (''depth'', JNum (of_nat depth))]]\<rparr>;
                                   (related_links, w4) = find_related_job_pages env w3
                               in Some (enqueue_new related_links (depth + 1)
                                          (visited_urls self1) pages_to_explore, self1, w4)))
                       else
                         (case find_job_navigation env self w3 of
                            None \<Rightarrow> None
                          | Some (nav_links, self1, w4) \<Rightarrow>
                              (let pages1 = enqueue_new nav_links (depth + 1)
                                              (visited_urls self1) pages_to_explore;
                                   (job_links, w5) = find_job_links_on_page env w4
                               in Some (enqueue_new job_links (depth + 1) (visited_urls self1)
                                          pages1, self1, w5))))))"

text \<open>
  The loop \<open>while pages_to_explore and len(self.visited_urls) < MAX_PAGES_TO_EXPLORE\<close> over
  the frontier, the object's state and the world; \<open>explore_step\<close> is one pass through its
  body.
\<close>

type_synonym 'w traversal = "(string \<times> nat) list \<times> discovery_state \<times> 'w"

definition loop_continues :: "'w traversal \<Rightarrow> bool" where
  "loop_continues c =
     (case c of (pages_to_explore, self, w) \<Rightarrow>
        pages_to_explore \<noteq> [] \<and> fcard (visited_urls self) < MAX_PAGES_TO_EXPLORE)"

definition explore_step :: "'w env \<Rightarrow> 'w traversal \<Rightarrow> 'w traversal option" where
  "explore_step env c =
     (case c of (pages_to_explore, self, w) \<Rightarrow>
        (case pages_to_explore of
           [] \<Rightarrow> Some c
         | (current_url, depth) # rest \<Rightarrow>
             if current_url |\<in>| visited_urls self \<or> depth > MAX_DEPTH
             then Some (rest, self, w)
             else explore_page env current_url depth rest
                    (self\<lparr>visited_urls := finsert current_url (visited_urls self)\<rparr>) w))"

lemma explore_page_visited:
  "explore_page env u d pages self w = Some (pages', self', w') \<Longrightarrow>
   visited_urls self' = visited_urls self"
  by (auto simp: explore_page_def find_job_navigation_def Let_def
      split: sum.splits prod.splits if_splits option.splits)

lemma explore_step_decreases:
  assumes "loop_continues c" and "explore_step env c = Some c'"
  shows "(c', c) \<in>
     measures [\<lambda>c. MAX_PAGES_TO_EXPLORE - fcard (visited_urls (fst (snd c))),
               \<lambda>c. length (fst c)]"
proof -
  obtain pages self w where c: "c = (pages, self, w)" by (cases c) auto
  from assms(1) c obtain u d rest where p: "pages = (u, d) # rest"
    by (cases pages) (auto simp: loop_continues_def)
  from assms(1) c have lt: "fcard (visited_urls self) < MAX_PAGES_TO_EXPLORE"
    by (simp add: loop_continues_def)
  show ?thesis
  proof (cases "u |\<in>| visited_urls self \<or> d > MAX_DEPTH")
    case True
    with assms(2) show ?thesis by (auto simp: explore_step_def c p)
  next
    case False
    obtain pages' self' w' where c': "c' = (pages', self', w')" by (cases c') auto
    from assms(2) False have
      e: "explore_page env u d rest (self\<lparr>visited_urls := finsert u (visited_urls self)\<rparr>) w =
            Some (pages', self', w')"
      by (simp add: explore_step_def c p c')
    from explore_page_visited [OF e] have "visited_urls self' = finsert u (visited_urls self)"
      by simp
    moreover have "fcard (finsert u (visited_urls self)) = Suc (fcard (visited_urls self))"
      using False by (simp add: fcard_finsert_disjoint)
    ultimately show ?thesis using lt by (auto simp: c c')
  qed
qed

function explore :: "'w env \<Rightarrow> 'w traversal \<Rightarrow> 'w traversal option" where
  "explore env c =
     (if loop_continues c
      then (case explore_step env c of None \<Rightarrow> None | Some c' \<Rightarrow> explore env c')
      else Some c)"
  by pat_completeness auto
termination
proof (relation "inv_image
    (measures [\<lambda>c. MAX_PAGES_TO_EXPLORE - fcard (visited_urls (fst (snd c))),
               \<lambda>c. length (fst c)]) snd")
  show "wf (inv_image
    (measures [\<lambda>c::'w traversal. MAX_PAGES_TO_EXPLORE - fcard (visited_urls (fst (snd c))),
               \<lambda>c. length (fst c)]) snd)"
    by simp
next
  fix env :: "'w env" and c c' :: "'w traversal"
  assume "loop_continues c" and "explore_step env c = Some c'"
  from explore_step_decreases [OF this]
  show "((env, c'), (env, c)) \<in> inv_image
    (measures [\<lambda>c. MAX_PAGES_TO_EXPLORE - fcard (visited_urls (fst (snd c))),
               \<lambda>c. length (fst c)]) snd"
    by simp
qed

declare explore.simps [simp del]

text \<open>
  \<open>discover_job_pages\<close>: the start page is loaded outside any \<open>try\<close>, the links found on it
  enter the frontier at depth 0, and the result is built from the state the loop leaves.
\<close>

definition discovery_result :: "discovery_state \<Rightarrow> json" where
  "discovery_result self =
     JObj [(''job_pages'', JArr (job_pages self)),
           (''total_pages_explored'', JNum (of_nat (fcard (visited_urls self)))),
           (''total_job_pages_found'', JNum (of_nat (length (job_pages self)))),
           (''discovered_elements'', JArr (all_discovered_elements self)),
           (''total_elements_discovered'',
              JNum (of_nat (length (all_discovered_elements self))))]"

definition discover_job_pages ::
  "'w env \<Rightarrow> discovery_state \<Rightarrow> string \<Rightarrow> 'w
     \<Rightarrow> ((exn + json) \<times> discovery_state \<times> 'w) option" where
  "discover_job_pages env self start_url w =
     (case goto env start_url w of
        (Inl e, w1) \<Rightarrow> Some (Inl e, self, w1)
      | (Inr u, w1) \<Rightarrow>
          (case wait_for_timeout env 3000 w1 of
             (Inl e, w2) \<Rightarrow> Some (Inl e, self, w2)
           | (Inr u', w2) \<Rightarrow>
               (case find_job_navigation env self w2 of
                  None \<Rightarrow> None
                | Some (job_nav_links, self1, w3) \<Rightarrow>
                    (case explore env (map (\<lambda>link. (link, 0)) job_nav_links, self1, w3) of
                       None \<Rightarrow> None
                     | Some (pages', self2, w4) \<Rightarrow>
                         Some (Inr (discovery_result self2), self2, w4)))))"

text \<open>
  The URLs that stand in the frontier at some time of the loop started from \<open>c\<close>: those
  the traversal encounters.
\<close>

function encountered_urls :: "'w env \<Rightarrow> 'w traversal \<Rightarrow> string fset" where
  "encountered_urls env c =
     fset_of_list (map fst (fst c)) |\<union>|
       (if loop_continues c
        then (case explore_step env c of
                None \<Rightarrow> {||}
              | Some c' \<Rightarrow> encountered_urls env c')
        else {||})"
  by pat_completeness auto
termination
proof (relation "inv_image
    (measures [\<lambda>c. MAX_PAGES_TO_EXPLORE - fcard (visited_urls (fst (snd c))),
               \<lambda>c. length (fst c)]) snd")
  show "wf (inv_image
    (measures [\<lambda>c::'w traversal. MAX_PAGES_TO_EXPLORE - fcard (visited_urls (fst (snd c))),
               \<lambda>c. length (fst c)]) snd)"
    by simp
next
  fix env :: "'w env" and c c' :: "'w traversal"
  assume "loop_continues c" and "explore_step env c = Some c'"
  from explore_step_decreases [OF this]
  show "((env, c'), (env, c)) \<in> inv_image
    (measures [\<lambda>c. MAX_PAGES_TO_EXPLORE - fcard (visited_urls (fst (snd c))),
               \<lambda>c. length (fst c)]) snd"
    by simp
qed

declare encountered_urls.simps [simp del]

section \<open>Predicates used to state the properties\<close>






section \<open>Concrete pages for the examples\<close>

text \<open>
  A page whose world is the text held by its one input field. Every operation succeeds,
  the field is read-only (typing does not change it), the vision model answers each
  prompt with \<open>answer prompt\<close>, element lookups find an element without a link, and
  the navigation search finds nothing.
\<close>

definition page_stub :: "(prompt \<Rightarrow> string) \<Rightarrow> (string \<Rightarrow> json option) \<Rightarrow> string env" where
  "page_stub answer loads =
     \<lparr> page_url = (\<lambda>w. ''https://example.com/''),
       viewport_size = (\<lambda>w. Some (1280, 800)),
       goto = (\<lambda>u. io_ret ()),
       wait_for_timeout = (\<lambda>ms. io_ret ()),
       scroll_to = (\<lambda>x y. io_ret ()),
       scroll_height = io_ret 2000,
       page_y_offset = io_ret 0,
       screenshot = io_ret ''png'',
       screenshot_clip = (\<lambda>w h. io_ret ''png''),
       save_screenshot = (\<lambda>u b w. (None, w)),
       chat_completion = (\<lambda>pr shot. io_ret [answer pr]),
       json_loads = loads,
       urljoin = (\<lambda>base h. h),
       element_href = (\<lambda>x y. io_ret None),
       element_info = (\<lambda>x y. io_ret ()),
       element_click = (\<lambda>x y. io_ret True),
       mouse_click = (\<lambda>x y. io_ret ()),
       keyboard_press = (\<lambda>k. io_ret ()),
       keyboard_type = (\<lambda>t. io_ret ()),
       page_settle = (\<lambda>w. w),
       now_isoformat = (\<lambda>w. (''2025-01-01T00:00:00'', w)),
       str_exn = (\<lambda>e. ''error''),
       llm_api_available = True,
       get_openai_client = io_ret True,
       analyze_navigation_viewport = (\<lambda>n pos found w. (([], [], None), w)),
       check_hidden_menus = (\<lambda>w. ([], w)) \<rparr>"


text \<open>
  A response whose JSON payload holds three backquotes inside a string, and \<open>json.loads\<close>
  on the two texts the extraction can hand over for it: the payload parses; the text cut at
  the inner backquotes, \<open>[{"label": "\<close>, is an unterminated string and raises
  \<open>JSONDecodeError\<close>.
\<close>

definition backquote_payload :: string where
  \<open>backquote_payload = ''[{"label": "```", "bbox": [1, 2, 3, 4]}]''\<close>

definition loads_backquote_payload :: "string \<Rightarrow> json option" where
  "loads_backquote_payload s =
     (if s = backquote_payload
      then Some (JArr [JObj [(''label'', JStr ''```''),
                             (''bbox'', JArr [JNum 1, JNum 2, JNum 3, JNum 4])]])
      else None)"

text \<open>
  A page that answers \<open>no\<close> to every prompt, and on which the navigation search reaches
  one URL from the first viewport.
\<close>

definition careers_page :: "string env" where
  "careers_page =
     (page_stub (\<lambda>p. ''no'') (\<lambda>s. None))
       \<lparr>analyze_navigation_viewport := \<lambda>n pos found w.
          ((if n = 0 then [''https://example.com/careers''] else [], [], None), w)\<rparr>"

section \<open>Properties of the coordinate resolver\<close>

text \<open>
  C1, as stated, at the box \<open>[0, 0, 101, 101]\<close>: both the 3rd and the 4th value exceed 100,
  the centre \<open>((x1+x2)/2, (y1+y2)/2)\<close> is \<open>(50.5, 50.5)\<close>, and the code's \<open>//\<close> yields
  \<open>(50, 50)\<close>.
\<close>

theorem resolve_click_point_not_exact_center:
  "resolve_click_point [0, 0, 101, 101] = Some (50, 50) \<and>
   resolve_click_point [0, 0, 101, 101] \<noteq> Some ((0 + 101) / 2, (0 + 101) / 2)"
  by code_simp

text \<open>
  C1, amended: for every 4-element box the click point is the corner-form centre rounded
  down, \<open>(\<lfloor>(x1+x2)/2\<rfloor>, \<lfloor>(y1+y2)/2\<rfloor>)\<close>, when the 3rd and 4th values both exceed 100, and
  otherwise the origin plus the size halved and rounded down, \<open>(x + \<lfloor>w/2\<rfloor>, y + \<lfloor>h/2\<rfloor>)\<close>.
\<close>

theorem resolve_click_point_floor:
  "(100 < x2 \<and> 100 < y2 \<longrightarrow>
      resolve_click_point [x1, y1, x2, y2] =
        Some (of_int \<lfloor>(x1 + x2) / 2\<rfloor>, of_int \<lfloor>(y1 + y2) / 2\<rfloor>)) \<and>
   (x2 \<le> 100 \<or> y2 \<le> 100 \<longrightarrow>
      resolve_click_point [x1, y1, x2, y2] =
        Some (x1 + of_int \<lfloor>x2 / 2\<rfloor>, y1 + of_int \<lfloor>y2 / 2\<rfloor>))"
  by (auto simp: floordiv2_def)

theorem resolve_click_point_floor_witness:
  "((100::rat) < 300 \<and> (100::rat) < 240 \<and>
      resolve_click_point [100, 200, 300, 240] = Some (200, 220)) \<and>
   (((40::rat) \<le> 100 \<or> (21::rat) \<le> 100) \<and>
      resolve_click_point [10, 20, 40, 21] = Some (30, 30))"
proof -
  have a: "\<lfloor>(100 + 300) / (2::rat)\<rfloor> = 200" "\<lfloor>(200 + 240) / (2::rat)\<rfloor> = 220"
          "\<lfloor>40 / (2::rat)\<rfloor> = 20" "\<lfloor>21 / (2::rat)\<rfloor> = 10"
    by code_simp+
  show ?thesis
    using resolve_click_point_floor [of 300 240 100 200]
      resolve_click_point_floor [of 40 21 10 20]
    by (simp add: a)
qed

section \<open>Properties of the page-absolute conversion\<close>

lemma add_element_metadata_stores_absolute_box:
  assumes "map_of kvs ''bbox'' = Some (JArr [JNum x1, JNum y1, JNum x2, JNum y2])"
    and "verbose \<Longrightarrow> \<exists>category. map_of kvs ''category'' = Some category \<and>
           (category \<in> set reported_categories \<longrightarrow> map_of kvs ''label'' \<noteq> None)"
  shows "\<exists>element'.
       add_element_metadata verbose url viewport_count scroll_position screenshot_path
         (JObj kvs) = Inr element' \<and>
       get_item element' ''bbox_absolute'' =
         Inr (JArr [JNum x1, JNum (y1 + of_int scroll_position),
                    JNum x2, JNum (y2 + of_int scroll_position)]) \<and>
       get_item element' ''bbox_viewport'' = Inr (JArr [JNum x1, JNum y1, JNum x2, JNum y2]) \<and>
       get_item element' ''bbox'' = Inr (JArr [JNum x1, JNum y1, JNum x2, JNum y2])"
  using assms
  by (cases verbose)
     (auto simp add: bbox_absolute_def add_element_metadata_def bindE_def update_conv')

lemma add_element_metadata_example:
  "add_element_metadata True ''https://example.com'' 1 800 ''shot.png''
     (JObj [(''label'', JStr ''Careers''), (''category'', JStr ''JOB_NAVIGATION''),
            (''bbox'', JArr [JNum 10, JNum 20, JNum 110, JNum 60])]) =
   Inr (JObj [(''label'', JStr ''Careers''), (''category'', JStr ''JOB_NAVIGATION''),
              (''bbox'', JArr [JNum 10, JNum 20, JNum 110, JNum 60]),
              (''url'', JStr ''https://example.com''),
              (''viewport_number'', JNum 1),
              (''scroll_position'', JNum 800),
              (''screenshot_path'', JStr ''shot.png''),
              (''bbox_viewport'', JArr [JNum 10, JNum 20, JNum 110, JNum 60]),
              (''bbox_absolute'', JArr [JNum 10, JNum 820, JNum 110, JNum 860])]) \<and>
   add_element_metadata True ''https://example.com'' 1 800 ''shot.png''
     (JObj [(''category'', JStr ''JOB_NAVIGATION''),
            (''bbox'', JArr [JNum 10, JNum 20, JNum 110, JNum 60])]) = Inl KeyError"
  by (simp add: bbox_absolute_def add_element_metadata_def bindE_def reported_categories_def)

text \<open>
  C8: for every 4-element box \<open>[x1, y1, x2, y2]\<close> and scroll offset, the page-absolute
  box is \<open>[x1, y1 + scroll, x2, y2 + scroll]\<close>: the offset is added to the 2nd and 4th
  values only, the 1st and 3rd are unchanged.
\<close>

theorem bbox_absolute_adds_scroll_to_y_only:
  "bbox_absolute (JArr [JNum x1, JNum y1, JNum x2, JNum y2]) scroll_position =
     Inr (JArr [JNum x1, JNum (y1 + of_int scroll_position),
                JNum x2, JNum (y2 + of_int scroll_position)])"
  by (simp add: bbox_absolute_def bindE_def)

section \<open>Properties of the response post-processing\<close>

lemma rfind_sub_bound: "rfind_sub sub s = Some i \<Longrightarrow> i + length sub \<le> length s"
proof (induction s arbitrary: i)
  case Nil
  then show ?case by (auto split: if_splits)
next
  case (Cons c cs)
  then show ?case by (auto split: option.splits if_splits dest: prefix_length_le)
qed

lemma rfind_sub_end: "sub \<noteq> [] \<Longrightarrow> rfind_sub sub (xs @ sub) = Some (length xs)"
proof (induction xs)
  case Nil
  then obtain c cs where s: "sub = c # cs" by (cases sub) auto
  have "rfind_sub sub cs = None"
  proof (cases "rfind_sub sub cs")
    case (Some i)
    from rfind_sub_bound [OF this] s show ?thesis by simp
  qed simp
  then show ?case using s by simp
next
  case (Cons x xs)
  then show ?case by simp
qed

lemma strip_id:
  assumes "s \<noteq> []" "\<not> is_space (hd s)" "\<not> is_space (last s)"
  shows "strip s = s"
proof -
  have 1: "dropWhile is_space s = s" using assms by (cases s) auto
  have 2: "dropWhile is_space (rev s) = rev s" using assms by (cases s rule: rev_cases) auto
  show ?thesis by (simp add: strip_def 1 2)
qed

lemma json_prefix_append:
  assumes "\<not> prefix ''json'' p"
  shows "\<not> prefix ''json'' (p @ fence)"
proof
  assume "prefix ''json'' (p @ fence)"
  then obtain us where u: "''json'' = p @ us" "prefix us fence"
    using assms by (auto simp: prefix_append)
  from u(1) assms have "us \<noteq> []" by auto
  with u(2) have "hd us = CHR 0x60" by (cases us) (auto simp: fence_def)
  moreover have "hd us \<in> set ''json''" using \<open>us \<noteq> []\<close> u(1)
    by (metis Un_iff hd_in_set set_append)
  ultimately show False by simp
qed

lemma wrapped_json_startswith:
  assumes "p \<noteq> []"
  shows "extract_json_startswith (strip (fence_json @ p @ fence)) = strip p"
proof -
  let ?w = "fence_json @ p @ fence"
  have w: "strip ?w = ?w"
    by (rule strip_id) (simp_all add: fence_json_def fence_def is_space_def)
  have c: "startswith ?w fence_json" by (simp add: startswith_def)
  have s: "py_find ?w fence_json 0 = 0" by (simp add: py_find_def fence_json_def)
  have "rfind_sub fence ((fence_json @ p) @ fence) = Some (length (fence_json @ p))"
    by (rule rfind_sub_end) (simp add: fence_def)
  then have e: "py_rfind ?w fence = 7 + int (length p)"
    by (simp add: py_rfind_def fence_json_def)
  have sl: "slice ?w 7 (7 + int (length p)) = p"
    by (simp add: slice_def clamp_index_def) (simp add: fence_json_def fence_def)
  show ?thesis using assms(1) by (simp add: w extract_json_startswith_def c s e sl)
qed

lemma wrapped_startswith:
  assumes "p \<noteq> []" "\<not> prefix ''json'' p"
  shows "extract_json_startswith (strip (fence @ p @ fence)) = strip p"
proof -
  let ?w = "fence @ p @ fence"
  have w: "strip ?w = ?w" by (rule strip_id) (simp_all add: fence_def is_space_def)
  have "\<not> prefix ''json'' (p @ fence)" by (rule json_prefix_append [OF assms(2)])
  then have n: "\<not> startswith ?w fence_json"
    by (simp add: startswith_def fence_json_def fence_def)
  have c: "startswith ?w fence" by (simp add: startswith_def)
  have s: "py_find ?w fence 0 = 0" by (simp add: py_find_def fence_def)
  have "rfind_sub fence ((fence @ p) @ fence) = Some (length (fence @ p))"
    by (rule rfind_sub_end) (simp add: fence_def)
  then have e: "py_rfind ?w fence = 3 + int (length p)"
    by (simp add: py_rfind_def fence_def)
  have sl: "slice ?w 3 (3 + int (length p)) = p"
    by (simp add: slice_def clamp_index_def) (simp add: fence_def)
  show ?thesis using assms(1) by (simp add: w extract_json_startswith_def n c s e sl)
qed

text \<open>
  C9 at the response that wraps the payload \<open>[{"label": "```", "bbox": [1, 2, 3, 4]}]\<close> in a
  \<open>```json\<close> fence. Unwrapped, the extraction of \<open>_find_job_navigation\<close> leaves the payload
  whole and it parses to one element. Wrapped, that extraction looks for the closing fence
  with \<open>find\<close>, stops at the backquotes inside the label, hands \<open>[{"label": "\<close> to
  \<open>json.loads\<close>, and nothing is parsed. The extraction of \<open>_parse_vision_response\<close>, which
  looks for the closing fence with \<open>rfind\<close>, recovers the whole payload from the same
  response, as it does for every payload that is not empty.
\<close>

theorem fenced_backquote_payload_parsed_differently:
  \<open>extract_json_find (strip (fence_json @ backquote_payload @ fence)) = ''[{"label": "'' \<and>
   extract_json_find (strip backquote_payload) = backquote_payload \<and>
   load_elements loads_backquote_payload (fence_json @ backquote_payload @ fence) = None \<and>
   load_elements loads_backquote_payload backquote_payload =
     Some (JArr [JObj [(''label'', JStr ''```''),
                       (''bbox'', JArr [JNum 1, JNum 2, JNum 3, JNum 4])]]) \<and>
   extract_json_startswith (strip (fence_json @ backquote_payload @ fence)) =
     backquote_payload \<and>
   extract_json_startswith (strip backquote_payload) = backquote_payload\<close>
  by code_simp

section \<open>Properties of the handling of invalid JSON\<close>

text \<open>
  C5, as stated, at the response \<open>not json\<close>, on which \<open>json.loads\<close> raises
  \<open>JSONDecodeError\<close>: \<open>_parse_vision_response\<close> raises \<open>ValueError\<close> instead of yielding an
  empty element list, and what \<open>analyze_viewport_screenshot\<close> hands to its caller is a
  failure result that has no \<open>elements\<close> entry.
\<close>

theorem parse_vision_response_raises_on_invalid_json:
  "parse_vision_response (\<lambda>s. None) ''not json'' = Inl ValueError \<and>
   fst (analyze_viewport_screenshot (page_stub (\<lambda>p. ''not json'') (\<lambda>s. None))
          None True (Some [''button'']) ''field'') =
     JObj [(''success'', JBool False), (''error'', JStr ''error''),
           (''page_url'', JStr ''https://example.com/''),
           (''timestamp'', JStr ''2025-01-01T00:00:00'')] \<and>
   get_item (fst (analyze_viewport_screenshot (page_stub (\<lambda>p. ''not json'') (\<lambda>s. None))
          None True (Some [''button'']) ''field'')) ''elements'' = Inl KeyError"
  by code_simp

text \<open>
  C5, amended: when the text handed to \<open>json.loads\<close> is not valid JSON,
  \<open>_find_job_links_on_page\<close> returns the empty list to its caller and raises nothing;
  \<open>_parse_vision_response\<close> raises \<open>ValueError\<close>, and \<open>analyze_viewport_screenshot\<close> catches
  it and returns a failure result (\<open>success\<close> false, the error text, the page URL and a
  timestamp), so that no exception reaches the caller's loop.
\<close>

theorem invalid_json_yields_empty_or_failure_result:
  "(screenshot env w = (Inr shot, w1) \<and>
    chat_completion env JobLinksPrompt shot w1 = (Inr (content # rest), w2) \<and>
    json_loads env (extract_json_startswith (strip content)) = None \<longrightarrow>
      find_job_links_on_page env w = ([], w2)) \<and>
   (loads (extract_json_startswith response) = None \<longrightarrow>
      parse_vision_response loads response = Inl ValueError) \<and>
   (screenshot env v = (Inr shot', v1) \<and>
    save_screenshot env (page_url env v) shot' v1 = (path, v2) \<and>
    chat_completion env
      (AnalysisPrompt (element_types_or_default element_types) include_description) shot' v2 =
      (Inr (content' # rest'), v3) \<and>
    json_loads env (extract_json_startswith (strip content')) = None \<and>
    now_isoformat env v3 = (ts, v4) \<longrightarrow>
      analyze_viewport_screenshot env None include_description element_types v =
        (JObj [(''success'', JBool False), (''error'', JStr (str_exn env ValueError)),
               (''page_url'', JStr (page_url env v)), (''timestamp'', JStr ts)], v4))"
proof (intro conjI impI)
  assume "screenshot env w = (Inr shot, w1) \<and>
    chat_completion env JobLinksPrompt shot w1 = (Inr (content # rest), w2) \<and>
    json_loads env (extract_json_startswith (strip content)) = None"
  then show "find_job_links_on_page env w = ([], w2)"
    by (simp add: find_job_links_on_page_def io_bind_def io_lift_def io_ret_def
        first_content_def)
next
  assume "loads (extract_json_startswith response) = None"
  then show "parse_vision_response loads response = Inl ValueError"
    by (simp add: parse_vision_response_def)
next
  assume "screenshot env v = (Inr shot', v1) \<and>
    save_screenshot env (page_url env v) shot' v1 = (path, v2) \<and>
    chat_completion env
      (AnalysisPrompt (element_types_or_default element_types) include_description) shot' v2 =
      (Inr (content' # rest'), v3) \<and>
    json_loads env (extract_json_startswith (strip content')) = None \<and>
    now_isoformat env v3 = (ts, v4)"
  then show "analyze_viewport_screenshot env None include_description element_types v =
        (JObj [(''success'', JBool False), (''error'', JStr (str_exn env ValueError)),
               (''page_url'', JStr (page_url env v)), (''timestamp'', JStr ts)], v4)"
    by (simp add: analyze_viewport_screenshot_def call_vision_model_def io_bind_def
        io_lift_def io_ret_def first_content_def parse_vision_response_def Let_def)
qed

theorem invalid_json_yields_empty_or_failure_result_witness:
  "find_job_links_on_page (page_stub (\<lambda>p. ''oops'') (\<lambda>s. None)) ''field'' = ([], ''field'') \<and>
   parse_vision_response (\<lambda>s. None) ''oops'' = Inl ValueError \<and>
   analyze_viewport_screenshot (page_stub (\<lambda>p. ''oops'') (\<lambda>s. None)) None False None ''field'' =
     (JObj [(''success'', JBool False), (''error'', JStr ''error''),
            (''page_url'', JStr ''https://example.com/''),
            (''timestamp'', JStr ''2025-01-01T00:00:00'')], ''field'')"
  using invalid_json_yields_empty_or_failure_result
    [where env = "page_stub (\<lambda>p. ''oops'') (\<lambda>s. None)" and w = "''field''" and shot = "''png''"
       and ?w1.0 = "''field''" and content = "''oops''" and rest = "[]" and ?w2.0 = "''field''"
       and loads = "\<lambda>s. None" and response = "''oops''" and v = "''field''"
       and shot' = "''png''" and ?v1.0 = "''field''" and path = None and ?v2.0 = "''field''"
       and element_types = None and include_description = False and content' = "''oops''"
       and rest' = "[]" and ?v3.0 = "''field''" and ts = "''2025-01-01T00:00:00''"
       and ?v4.0 = "''field''"]
  by (simp add: page_stub_def io_ret_def)

section \<open>The input action\<close>

text \<open>
  C4 at a read-only field that holds \<open>old value\<close>: \<open>perform_input_action\<close> with the box
  \<open>[10, 20, 200, 30]\<close> and the text \<open>hello\<close> leaves the field as it was and returns
  \<open>success: True\<close>; the result has no entry that compares the field's value with the
  text (test_tool_actions.py reads such an entry, \<open>input_verification\<close>).
\<close>

theorem perform_input_reports_success_unverified:
  "perform_input_action (page_stub (\<lambda>p. ''NONE'') (\<lambda>s. None))
     (Some [10, 20, 200, 30]) (Some ''hello'') ''old value'' =
     (Inr (JObj [(''success'', JBool True), (''action_type'', JStr ''input''),
                 (''coordinates'', JArr [JNum 110, JNum 35]),
                 (''bbox'', JArr [JNum 10, JNum 20, JNum 200, JNum 30]),
                 (''text'', JStr ''hello''),
                 (''timestamp'', JStr ''2025-01-01T00:00:00'')]), ''old value'') \<and>
   get_item (fst (perform_action_input (page_stub (\<lambda>p. ''NONE'') (\<lambda>s. None))
     (Some [10, 20, 200, 30]) (Some ''hello'') ''old value'')) ''input_verification'' =
     Inl KeyError"
  by code_simp

section \<open>Properties of the pagination exhauster\<close>













lemma parse_click_example: "parse_click (strip ''CLICK,100,200'') = Inr (Some (100, 200))"
  by code_simp

lemma not_none_example: "\<not> contains ''none'' (lower (strip ''CLICK,100,200''))"
  by code_simp



lemma stub_none_run: "vision_detect_pagination (page_stub (\<lambda>p. ''NONE'') (\<lambda>s. None)) ''field'' =
   (JObj [(''mode'', JStr ''none'')], \<lparr>total_clicks = 0, clicks_issued = []\<rparr>, ''field'')"
  by code_simp














section \<open>Properties of the navigation traversal\<close>

lemma navigation_walk_returns:
  assumes "0 < vh"
  shows "\<exists>r. navigation_walk env vh ph pos n urls found w = Some r"
proof (induction "nat (ph - pos)" arbitrary: pos n urls found w rule: less_induct)
  case less
  show ?case
  proof (cases "pos < ph")
    case False
    then show ?thesis by (subst navigation_walk.simps) simp
  next
    case True
    obtain us es raised w' where a:
      "analyze_navigation_viewport env n pos found w = ((us, es, raised), w')"
      by (cases "analyze_navigation_viewport env n pos found w") auto
    show ?thesis
    proof (cases raised)
      case (Some e)
      with True a show ?thesis by (subst navigation_walk.simps) simp
    next
      case None
      have "nat (ph - (pos + vh)) < nat (ph - pos)" using True assms by simp
      from less [OF this, of "n + 1" "urls @ us" "found @ es" w']
      show ?thesis using True a None by (subst navigation_walk.simps) simp
    qed
  qed
qed


lemma find_job_navigation_returns:
  assumes "0 < snd (viewport_or_default env w)"
  shows "\<exists>r. find_job_navigation env self w = Some r"
proof -
  let ?vh = "case viewport_size env w of None \<Rightarrow> 800 | Some (width, height) \<Rightarrow> height"
  have vh: "0 < ?vh" using assms by (auto simp: viewport_or_default_def split: option.splits)
  show ?thesis
  proof (cases "scroll_height env w")
    case (Pair r w1)
    show ?thesis
    proof (cases r)
      case (Inl e)
      with Pair show ?thesis by (simp add: find_job_navigation_def)
    next
      case (Inr ph)
      from navigation_walk_returns [OF vh, of env ph 0 0 "[]" "[]" w1]
      obtain res where n: "navigation_walk env ?vh ph 0 0 [] [] w1 = Some res" by blast
      show ?thesis using Pair Inr n
        by (auto simp: find_job_navigation_def Let_def split: prod.splits sum.splits)
    qed
  qed
qed

lemma find_job_navigation_frame:
  "find_job_navigation env self w = Some (urls, self', w') \<Longrightarrow>
   visited_urls self' = visited_urls self \<and> job_pages self' = job_pages self"
  by (auto simp: find_job_navigation_def Let_def
      split: sum.splits prod.splits if_splits option.splits)

lemma explore_page_returns:
  assumes "\<forall>v. 0 < snd (viewport_or_default env v)"
  shows "\<exists>r. explore_page env u d pages self w = Some r"
proof -
  have f: "\<And>s v. find_job_navigation env s v = None \<Longrightarrow> False"
    using find_job_navigation_returns assms by (metis option.distinct(1))
  show ?thesis
    by (auto simp: explore_page_def Let_def split: sum.splits prod.splits option.splits
        dest: f)
qed

lemma explore_step_returns:
  assumes "\<forall>v. 0 < snd (viewport_or_default env v)"
  shows "\<exists>c'. explore_step env c = Some c'"
proof -
  obtain pages self w where c: "c = (pages, self, w)" by (cases c) auto
  show ?thesis
    using explore_page_returns [OF assms]
    by (auto simp: explore_step_def c split: list.splits)
qed

lemma explore_returns:
  "\<forall>v. 0 < snd (viewport_or_default env v) \<Longrightarrow> \<exists>c'. explore env c = Some c'"
proof (induction env c rule: explore.induct)
  case (1 env c)
  show ?case
  proof (cases "loop_continues c")
    case True
    from explore_step_returns [OF "1.prems", of c] obtain c1 where
      s: "explore_step env c = Some c1" by blast
    from "1.IH" [OF True s "1.prems"] obtain c2 where "explore env c1 = Some c2" by blast
    with True s have "explore env c = Some c2" by (subst explore.simps) simp
    then show ?thesis by blast
  next
    case False
    then have "explore env c = Some c" by (subst explore.simps) simp
    then show ?thesis by blast
  qed
qed

lemma explore_page_job_pages:
  assumes "\<forall>v. get_item (fst (verify_job_listing_page env v)) ''is_job_page'' = Inr (JBool False)"
    and "explore_page env u d pages self w = Some (pages', self', w')"
  shows "job_pages self' = job_pages self"
proof -
  have f: "\<And>v a b. verify_job_listing_page env v = (a, b) \<Longrightarrow>
      get_item a ''is_job_page'' = Inr (JBool False)"
    using assms(1) by (metis fst_conv)
  show ?thesis using assms(2)
    by (auto simp: explore_page_def Let_def
        split: sum.splits prod.splits if_splits option.splits
        dest!: f dest: find_job_navigation_frame)
qed

lemma explore_step_job_pages:
  assumes "\<forall>v. get_item (fst (verify_job_listing_page env v)) ''is_job_page'' = Inr (JBool False)"
    and "explore_step env c = Some c'"
  shows "job_pages (fst (snd c')) = job_pages (fst (snd c))"
proof -
  obtain pages self w where c: "c = (pages, self, w)" by (cases c) auto
  obtain pages' self' w' where c': "c' = (pages', self', w')" by (cases c') auto
  show ?thesis
  proof (cases pages)
    case Nil
    with assms(2) show ?thesis by (auto simp: explore_step_def c)
  next
    case (Cons p rest)
    obtain u d where p: "p = (u, d)" by (cases p) auto
    show ?thesis
    proof (cases "u |\<in>| visited_urls self \<or> d > MAX_DEPTH")
      case True
      with assms(2) show ?thesis by (auto simp: explore_step_def c Cons p)
    next
      case False
      let ?s = "self\<lparr>visited_urls := finsert u (visited_urls self)\<rparr>"
      from assms(2) False have e: "explore_page env u d rest ?s w = Some (pages', self', w')"
        by (simp add: explore_step_def c Cons p c')
      from explore_page_job_pages [OF assms(1) e] show ?thesis by (simp add: c c')
    qed
  qed
qed

lemma explore_step_visited:
  assumes "explore_step env c = Some c'"
  shows "visited_urls (fst (snd c)) |\<subseteq>| visited_urls (fst (snd c')) \<and>
   visited_urls (fst (snd c')) |\<subseteq>|
     visited_urls (fst (snd c)) |\<union>| fset_of_list (map fst (take 1 (fst c)))"
proof -
  obtain pages self w where c: "c = (pages, self, w)" by (cases c) auto
  obtain pages' self' w' where c': "c' = (pages', self', w')" by (cases c') auto
  show ?thesis
  proof (cases pages)
    case Nil
    with assms show ?thesis by (auto simp: explore_step_def c)
  next
    case (Cons p rest)
    obtain u d where p: "p = (u, d)" by (cases p) auto
    show ?thesis
    proof (cases "u |\<in>| visited_urls self \<or> d > MAX_DEPTH")
      case True
      with assms show ?thesis by (auto simp: explore_step_def c Cons p)
    next
      case False
      let ?s = "self\<lparr>visited_urls := finsert u (visited_urls self)\<rparr>"
      from assms False have e: "explore_page env u d rest ?s w = Some (pages', self', w')"
        by (simp add: explore_step_def c Cons p c')
      from explore_page_visited [OF e] show ?thesis
        by (auto simp: c c' Cons p)
    qed
  qed
qed

lemma explore_step_cap:
  assumes "loop_continues c" and "explore_step env c = Some c'"
  shows "fcard (visited_urls (fst (snd c'))) \<le> MAX_PAGES_TO_EXPLORE"
proof -
  obtain pages self w where c: "c = (pages, self, w)" by (cases c) auto
  from assms(1) c have lt: "fcard (visited_urls self) < MAX_PAGES_TO_EXPLORE"
    by (simp add: loop_continues_def)
  have "visited_urls (fst (snd c')) |\<subseteq>|
     visited_urls self |\<union>| fset_of_list (map fst (take 1 pages))"
    using explore_step_visited [OF assms(2)] c by simp
  then have "fcard (visited_urls (fst (snd c'))) \<le>
     fcard (visited_urls self |\<union>| fset_of_list (map fst (take 1 pages)))"
    by (rule fcard_mono)
  also have "\<dots> \<le> fcard (visited_urls self) + fcard (fset_of_list (map fst (take 1 pages)))"
    by (metis fcard_funion_finter le_add1)
  also have "fcard (fset_of_list (map fst (take 1 pages))) \<le> 1"
    by (cases pages) (simp_all add: fcard_finsert_if fcard_fempty)
  finally show ?thesis using lt by simp
qed

lemma explore_job_pages:
  "\<forall>v. get_item (fst (verify_job_listing_page env v)) ''is_job_page'' = Inr (JBool False) \<Longrightarrow>
   explore env c = Some c' \<Longrightarrow>
   job_pages (fst (snd c')) = job_pages (fst (snd c))"
proof (induction env c rule: explore.induct)
  case (1 env c)
  show ?case
  proof (cases "loop_continues c")
    case True
    from "1.prems"(2) True obtain c1 where
      s: "explore_step env c = Some c1" and r: "explore env c1 = Some c'"
      by (subst (asm) explore.simps) (auto split: option.splits)
    from "1.IH" [OF True s "1.prems"(1) r] explore_step_job_pages [OF "1.prems"(1) s]
    show ?thesis by simp
  next
    case False
    with "1.prems"(2) show ?thesis by (subst (asm) explore.simps) simp
  qed
qed

lemma explore_cap:
  "fcard (visited_urls (fst (snd c))) \<le> MAX_PAGES_TO_EXPLORE \<Longrightarrow>
   explore env c = Some c' \<Longrightarrow>
   fcard (visited_urls (fst (snd c'))) \<le> MAX_PAGES_TO_EXPLORE"
proof (induction env c rule: explore.induct)
  case (1 env c)
  show ?case
  proof (cases "loop_continues c")
    case True
    from "1.prems"(2) True obtain c1 where
      s: "explore_step env c = Some c1" and r: "explore env c1 = Some c'"
      by (subst (asm) explore.simps) (auto split: option.splits)
    from "1.IH" [OF True s explore_step_cap [OF True s] r] show ?thesis .
  next
    case False
    with "1.prems" show ?thesis by (subst (asm) explore.simps) simp
  qed
qed

lemma explore_visited_mono:
  "explore env c = Some c' \<Longrightarrow>
   visited_urls (fst (snd c)) |\<subseteq>| visited_urls (fst (snd c'))"
proof (induction env c rule: explore.induct)
  case (1 env c)
  show ?case
  proof (cases "loop_continues c")
    case True
    from "1.prems" True obtain c1 where
      s: "explore_step env c = Some c1" and r: "explore env c1 = Some c'"
      by (subst (asm) explore.simps) (auto split: option.splits)
    from "1.IH" [OF True s r] explore_step_visited [OF s] show ?thesis by blast
  next
    case False
    with "1.prems" show ?thesis by (subst (asm) explore.simps) simp
  qed
qed

lemma take1_urls: "fset_of_list (map fst (take 1 pages)) |\<subseteq>| fset_of_list (map fst pages)"
  by (cases pages) auto

lemma explore_visited_bound:
  "explore env c = Some c' \<Longrightarrow>
   visited_urls (fst (snd c')) |\<subseteq>| visited_urls (fst (snd c)) |\<union>| encountered_urls env c"
proof (induction env c rule: explore.induct)
  case (1 env c)
  show ?case
  proof (cases "loop_continues c")
    case True
    from "1.prems" True obtain c1 where
      s: "explore_step env c = Some c1" and r: "explore env c1 = Some c'"
      by (subst (asm) explore.simps) (auto split: option.splits)
    have n: "encountered_urls env c =
        fset_of_list (map fst (fst c)) |\<union>| encountered_urls env c1"
      using True s by (subst encountered_urls.simps) simp
    from "1.IH" [OF True s r] explore_step_visited [OF s] take1_urls [of "fst c"]
    show ?thesis unfolding n by blast
  next
    case False
    with "1.prems" show ?thesis by (subst (asm) explore.simps) simp
  qed
qed

lemma no_answer_not_true: "\<not> contains ''true'' (lower (strip ''no''))"
  by code_simp

lemma stub_classifier_false:
  "get_item (fst (verify_job_listing_page
      ((page_stub (\<lambda>p. ''no'') (\<lambda>s. None))\<lparr>analyze_navigation_viewport := nav\<rparr>) v))
      ''is_job_page'' = Inr (JBool False)"
  using no_answer_not_true
  by (simp add: verify_job_listing_page_def viewport_or_default_def page_stub_def io_bind_def
      io_ret_def io_lift_def first_content_def)

text \<open>
  C7: dequeuing a URL that is already in the visited set changes nothing but the
  frontier, which loses that entry (no navigation: the world is unchanged; no record: the
  state is unchanged; no new entries). One pass through the loop and the whole loop only
  add to the visited set, what they add comes from the frontier, and so the visited count
  never exceeds the number of distinct URLs encountered.
\<close>

theorem revisit_is_noop_and_visited_only_grows:
  "(u |\<in>| visited_urls self \<longrightarrow>
      explore_step env ((u, d) # rest, self, w) = Some (rest, self, w)) \<and>
   (explore_step env (pages, self, w) = Some (pages', self', w') \<longrightarrow>
      visited_urls self |\<subseteq>| visited_urls self' \<and>
      visited_urls self' |\<subseteq>| visited_urls self |\<union>| fset_of_list (map fst pages)) \<and>
   (explore env (pages, self, w) = Some (pages'', self'', w'') \<longrightarrow>
      visited_urls self |\<subseteq>| visited_urls self'' \<and>
      visited_urls self'' |\<subseteq>| visited_urls self |\<union>| encountered_urls env (pages, self, w) \<and>
      fcard (visited_urls self'') \<le>
        fcard (visited_urls self |\<union>| encountered_urls env (pages, self, w)))"
proof (intro conjI impI)
  assume "u |\<in>| visited_urls self"
  then show "explore_step env ((u, d) # rest, self, w) = Some (rest, self, w)"
    by (simp add: explore_step_def)
next
  assume s: "explore_step env (pages, self, w) = Some (pages', self', w')"
  from explore_step_visited [OF s] show "visited_urls self |\<subseteq>| visited_urls self'" by simp
  from explore_step_visited [OF s] have
    "visited_urls self' |\<subseteq>| visited_urls self |\<union>| fset_of_list (map fst (take 1 pages))"
    by simp
  with take1_urls [of pages]
  show "visited_urls self' |\<subseteq>| visited_urls self |\<union>| fset_of_list (map fst pages)" by blast
next
  assume e: "explore env (pages, self, w) = Some (pages'', self'', w'')"
  from explore_visited_mono [OF e] show "visited_urls self |\<subseteq>| visited_urls self''" by simp
  from explore_visited_bound [OF e] show
    b: "visited_urls self'' |\<subseteq>| visited_urls self |\<union>| encountered_urls env (pages, self, w)"
    by simp
  from b show "fcard (visited_urls self'') \<le>
        fcard (visited_urls self |\<union>| encountered_urls env (pages, self, w))"
    by (rule fcard_mono)
qed


theorem revisit_is_noop_and_visited_only_grows_witness:
  "''a'' |\<in>| {|''a''|} \<and>
   explore_step (page_stub (\<lambda>p. ''no'') (\<lambda>s. None))
     ([(''a'', 0), (''b'', 1)], fresh_discovery\<lparr>visited_urls := {|''a''|}\<rparr>, ''field'') =
     Some ([(''b'', 1)], fresh_discovery\<lparr>visited_urls := {|''a''|}\<rparr>, ''field'')"
  using revisit_is_noop_and_visited_only_grows [where u = "''a''" and self = "fresh_discovery\<lparr>visited_urls := {|''a''|}\<rparr>"
      and env = "page_stub (\<lambda>p. ''no'') (\<lambda>s. None)" and d = 0 and rest = "[(''b'', 1)]"
      and w = "''field''"]
  by simp

lemma navigation_walk_flat:
  assumes r: "navigation_walk env vh ph pos n urls els w = Some y"
    and z: "vh = 0" and lt: "pos < ph"
    and q: "\<forall>k p f v. fst (analyze_navigation_viewport env k p f v) = ([], [], None)"
  shows False
  using r z lt q
proof (induct rule: navigation_walk.raw_induct [rotated 1, consumes 1])
  case (1 walk env vh ph pos n urls els w y)
  note facts = 1
  have "fst (analyze_navigation_viewport env n pos els w) = ([], [], None)"
    using facts(5) by blast
  then obtain w' where a: "analyze_navigation_viewport env n pos els w = (([], [], None), w')"
    by (cases "analyze_navigation_viewport env n pos els w") auto
  have "walk env vh ph (pos + vh) (n + 1) urls els w' = Some y"
    using facts(2) facts(4) a by simp
  from facts(1) [OF this facts(3) _ facts(5)] facts(3) facts(4) show ?case by simp
qed

lemma flat_page_never_returns:
  "discover_job_pages ((page_stub (\<lambda>p. ''no'') (\<lambda>s. None))\<lparr>viewport_size := \<lambda>w. Some (1280, 0)\<rparr>)
     fresh_discovery ''https://example.com/'' ''field'' = None"
proof -
  let ?e = "(page_stub (\<lambda>p. ''no'') (\<lambda>s. None))\<lparr>viewport_size := \<lambda>w. Some (1280, 0)\<rparr>"
  have q: "\<forall>k p f v. fst (analyze_navigation_viewport ?e k p f v) = ([], [], None)"
    by (simp add: page_stub_def)
  have "navigation_walk ?e 0 2000 0 0 [] [] ''field'' = None"
  proof (cases "navigation_walk ?e 0 2000 0 0 [] [] ''field''")
    case (Some y)
    from navigation_walk_flat [OF Some _ _ q] show ?thesis by simp
  qed simp
  then show ?thesis
    by (simp add: discover_job_pages_def find_job_navigation_def page_stub_def io_ret_def)
qed

text \<open>
  C3, as stated, on two sites without job-related elements whose classifier always answers
  \<open>no\<close>. On the first the start page does not load: \<open>page.goto(start_url)\<close> stands outside
  every \<open>try\<close>, its exception leaves \<open>discover_job_pages\<close>, and there is no result. On the
  second the viewport has height 0: the scroll loop of \<open>_find_job_navigation\<close> on the
  2000 pixel start page adds 0 to \<open>scroll_position\<close> for ever, and the run does not
  terminate.
\<close>

theorem traversal_without_result_on_failing_start:
  "discover_job_pages ((page_stub (\<lambda>p. ''no'') (\<lambda>s. None))\<lparr>goto := \<lambda>u. io_raise OtherError\<rparr>)
     fresh_discovery ''https://example.com/'' ''field'' =
     Some (Inl OtherError, fresh_discovery, ''field'') \<and>
   discover_job_pages ((page_stub (\<lambda>p. ''no'') (\<lambda>s. None))\<lparr>viewport_size := \<lambda>w. Some (1280, 0)\<rparr>)
     fresh_discovery ''https://example.com/'' ''field'' = None"
  using flat_page_never_returns
  by (simp add: discover_job_pages_def page_stub_def io_raise_def)

text \<open>
  C3, amended: a run on a fresh \<open>JobPageDiscovery\<close> whose start page loads, on a page with a
  viewport of positive height, and whose classifier always returns \<open>is_job_page: false\<close>,
  returns; its result has \<open>total_job_pages_found = 0\<close> and \<open>total_pages_explored\<close> at most
  \<open>MAX_PAGES_TO_EXPLORE = 50\<close>, whatever elements and links are discovered on the way (in
  particular when none are).
\<close>

theorem traversal_without_job_pages_within_cap:
  assumes start: "goto env start_url w = (Inr u, w1)" "wait_for_timeout env 3000 w1 = (Inr u', w2)"
    and viewport: "\<forall>v. 0 < snd (viewport_or_default env v)"
    and classifier:
      "\<forall>v. get_item (fst (verify_job_listing_page env v)) ''is_job_page'' = Inr (JBool False)"
  shows "\<exists>result self' w' n.
           discover_job_pages env fresh_discovery start_url w = Some (Inr result, self', w') \<and>
           get_item result ''total_job_pages_found'' = Inr (JNum 0) \<and>
           get_item result ''total_pages_explored'' = Inr (JNum (of_nat n)) \<and>
           n \<le> MAX_PAGES_TO_EXPLORE"
proof -
  from find_job_navigation_returns [of env w2 fresh_discovery] viewport
  obtain links self1 w3 where f: "find_job_navigation env fresh_discovery w2 = Some (links, self1, w3)"
    by (metis prod_cases3)
  from find_job_navigation_frame [OF f] have s1: "visited_urls self1 = {||}" "job_pages self1 = []"
    by (simp_all add: fresh_discovery_def)
  let ?c = "(map (\<lambda>link. (link, 0::nat)) links, self1, w3)"
  from explore_returns [OF viewport, of ?c] obtain pages' self2 w4 where
    e: "explore env ?c = Some (pages', self2, w4)" by (metis prod_cases3)
  have "job_pages self2 = []"
    using explore_job_pages [OF classifier e] s1 by simp
  moreover have "fcard (visited_urls self2) \<le> MAX_PAGES_TO_EXPLORE"
    using explore_cap [OF _ e] s1 by (simp add: fcard_fempty)
  ultimately show ?thesis using start f e
    by (auto simp: discover_job_pages_def discovery_result_def)
qed


theorem traversal_without_job_pages_within_cap_witness:
  "goto careers_page ''https://example.com/'' ''field'' = (Inr (), ''field'') \<and>
   wait_for_timeout careers_page 3000 ''field'' = (Inr (), ''field'') \<and>
   (\<exists>result self' w' n.
       discover_job_pages careers_page fresh_discovery ''https://example.com/'' ''field'' =
         Some (Inr result, self', w') \<and>
       get_item result ''total_job_pages_found'' = Inr (JNum 0) \<and>
       get_item result ''total_pages_explored'' = Inr (JNum (of_nat n)) \<and>
       n \<le> MAX_PAGES_TO_EXPLORE)"
proof -
  have 1: "goto careers_page ''https://example.com/'' ''field'' = (Inr (), ''field'')"
    by (simp add: careers_page_def page_stub_def io_ret_def)
  have 2: "wait_for_timeout careers_page 3000 ''field'' = (Inr (), ''field'')"
    by (simp add: careers_page_def page_stub_def io_ret_def)
  have 3: "\<forall>v. get_item (fst (verify_job_listing_page careers_page v)) ''is_job_page'' =
      Inr (JBool False)"
    by (simp add: careers_page_def stub_classifier_false)
  have 4: "\<forall>v. 0 < snd (viewport_or_default careers_page v)"
    by (simp add: careers_page_def viewport_or_default_def page_stub_def)
  from traversal_without_job_pages_within_cap [OF 1 2 4 3] 1 2 show ?thesis by simp
qed


end
